theory Spec2Isabelle
  imports Complex_Main
begin

section \<open>Strings\<close>

text \<open>
  Python strings are modelled as \<open>string\<close>. The two string methods the job manager
  uses, \<^verbatim>\<open>str.strip()\<close> and \<^verbatim>\<open>str.upper()\<close>, are written out for the ASCII range:
  \<open>is_space\<close> holds of the ASCII characters for which \<^verbatim>\<open>str.isspace()\<close> is true
  (codes 9 to 13 and 28 to 32), and \<open>upper_char\<close> maps \<open>a\<close> .. \<open>z\<close> to \<open>A\<close> .. \<open>Z\<close>.
  Characters outside ASCII are left as they are.
\<close>

definition is_space :: "char \<Rightarrow> bool" where
  "is_space c = (let n = (of_char c :: nat) in (9 \<le> n \<and> n \<le> 13) \<or> (28 \<le> n \<and> n \<le> 32))"

definition upper_char :: "char \<Rightarrow> char" where
  "upper_char c = (let n = (of_char c :: nat) in if 97 \<le> n \<and> n \<le> 122 then char_of (n - 32) else c)"

definition py_strip :: "string \<Rightarrow> string" where
  "py_strip s = rev (dropWhile is_space (rev (dropWhile is_space s)))"

definition py_upper :: "string \<Rightarrow> string" where
  "py_upper s = map upper_char s"

section \<open>Platform names\<close>

text \<open>
  \<^verbatim>\<open>
  def canonical_platform_name(name: str) -> str:
      p = (name or "").strip().upper()
      if p == "C5":
          return "C5GAME"
      if p == "HALO":
          return "HALOSKINS"
      return p
  \<close>
  On a string, \<^verbatim>\<open>name or ""\<close> is \<open>name\<close> itself.
\<close>

definition canonical_platform_name :: "string \<Rightarrow> string" where
  "canonical_platform_name name =
     (let p = py_upper (py_strip name)
      in if p = ''C5'' then ''C5GAME''
         else if p = ''HALO'' then ''HALOSKINS''
         else p)"

section \<open>Decoded JSON values and the Python built-ins\<close>

text \<open>
  \<^verbatim>\<open>SteamDTClient.get_price_batch\<close> returns \<^verbatim>\<open>resp.json()\<close>: a value built from
  \<^verbatim>\<open>None\<close>, booleans, integers, floats, strings, lists and dictionaries with string keys.
  A dictionary is an association list, read with \<open>dict_get\<close> (\<^verbatim>\<open>d.get(k)\<close>, which is
  \<^verbatim>\<open>None\<close> for a missing key). The type \<open>'f\<close> stands for Python's floats.
\<close>

datatype 'f json =
    JNone
  | JBool bool
  | JInt int
  | JFloat 'f
  | JStr string
  | JList "'f json list"
  | JDict "(string \<times> 'f json) list"

text \<open>
  The behaviour of the interpreter's own conversions is a parameter of the model:
  \<^item> \<open>float_of_int n\<close> is \<^verbatim>\<open>float(n)\<close>, \<open>None\<close> when it raises OverflowError;
  \<^item> \<open>float_of_str s\<close> is \<^verbatim>\<open>float(s)\<close>, \<open>None\<close> when it raises ValueError;
  \<^item> \<open>int_of_float f\<close> is \<^verbatim>\<open>int(f)\<close>, \<open>None\<close> for an infinity or a NaN;
  \<^item> \<open>int_of_str s\<close> is \<^verbatim>\<open>int(s)\<close>, \<open>None\<close> when it raises ValueError;
  \<^item> \<open>float_truthy f\<close> is \<^verbatim>\<open>bool(f)\<close>;
  \<^item> \<open>str_of v\<close> is \<^verbatim>\<open>str(v)\<close>;
  \<^item> \<open>strftime_beijing ms\<close> is the text \<^verbatim>\<open>datetime.fromtimestamp(ms / 1000, tz=UTC+8)\<close>
    formats to, \<open>None\<close> when that raises.
\<close>

record 'f builtins =
  float_of_int :: "int \<Rightarrow> 'f option"
  float_of_str :: "string \<Rightarrow> 'f option"
  int_of_float :: "'f \<Rightarrow> int option"
  int_of_str :: "string \<Rightarrow> int option"
  float_truthy :: "'f \<Rightarrow> bool"
  str_of :: "'f json \<Rightarrow> string"
  strftime_beijing :: "int \<Rightarrow> string option"

definition dict_get :: "(string \<times> 'f json) list \<Rightarrow> string \<Rightarrow> 'f json" where
  "dict_get d k = (case map_of d k of None \<Rightarrow> JNone | Some v \<Rightarrow> v)"

fun truthy :: "'f builtins \<Rightarrow> 'f json \<Rightarrow> bool" where
  "truthy bi JNone = False"
| "truthy bi (JBool b) = b"
| "truthy bi (JInt n) = (n \<noteq> 0)"
| "truthy bi (JFloat f) = float_truthy bi f"
| "truthy bi (JStr s) = (s \<noteq> [])"
| "truthy bi (JList xs) = (xs \<noteq> [])"
| "truthy bi (JDict d) = (d \<noteq> [])"

text \<open>\<^verbatim>\<open>a or b\<close>: the first operand when it is truthy, the second otherwise.\<close>

definition py_or :: "'f builtins \<Rightarrow> 'f json \<Rightarrow> 'f json \<Rightarrow> 'f json" where
  "py_or bi a b = (if truthy bi a then a else b)"

text \<open>
  \<^verbatim>\<open>
  def _to_float(x):
      try:
          return float(x)
      except Exception:
          return None

  def _to_int(x):
      try:
          return int(x)
      except Exception:
          return None
  \<close>
  \<^verbatim>\<open>float\<close> and \<^verbatim>\<open>int\<close> raise TypeError on \<^verbatim>\<open>None\<close>, a list or a dictionary.
\<close>

fun to_float :: "'f builtins \<Rightarrow> 'f json \<Rightarrow> 'f option" where
  "to_float bi (JBool b) = float_of_int bi (if b then 1 else 0)"
| "to_float bi (JInt n) = float_of_int bi n"
| "to_float bi (JFloat f) = Some f"
| "to_float bi (JStr s) = float_of_str bi s"
| "to_float bi JNone = None"
| "to_float bi (JList xs) = None"
| "to_float bi (JDict d) = None"

fun to_int :: "'f builtins \<Rightarrow> 'f json \<Rightarrow> int option" where
  "to_int bi (JBool b) = Some (if b then 1 else 0)"
| "to_int bi (JInt n) = Some n"
| "to_int bi (JFloat f) = int_of_float bi f"
| "to_int bi (JStr s) = int_of_str bi s"
| "to_int bi JNone = None"
| "to_int bi (JList xs) = None"
| "to_int bi (JDict d) = None"

text \<open>
  \<^verbatim>\<open>
  def _format_beijing_text(ms):
      try:
          if ms is None:
              return None
          dt = datetime.fromtimestamp(ms / 1000, tz=timezone(timedelta(hours=8)))
          return dt.strftime('%Y-%m-%d %H:%M:%S')
      except Exception:
          return None
  \<close>
\<close>

definition format_beijing_text :: "'f builtins \<Rightarrow> int option \<Rightarrow> string option" where
  "format_beijing_text bi ms = (case ms of None \<Rightarrow> None | Some m \<Rightarrow> strftime_beijing bi m)"

section \<open>The store\<close>

text \<open>The tables of \<^verbatim>\<open>db.py\<close> that the jobs read and write.\<close>

record Item =
  Item_id :: int
  Item_market_hash_name :: string

record Platform =
  Platform_id :: int
  Platform_item_id :: int
  Platform_name :: string

record 'f Price =
  market_hash_name :: string
  platform :: string
  platform_item_id :: "string option"
  item_id :: "int option"
  platform_id :: "int option"
  sell_price :: "'f option"
  bidding_price :: "'f option"
  sell_count :: "int option"
  bidding_count :: "int option"
  update_time :: "int option"
  update_time_text :: "string option"

text \<open>
  Exceptions are values. \<open>AttributeError\<close> and \<open>TypeError\<close> are what Python raises for
  \<^verbatim>\<open>x.get\<close>, \<^verbatim>\<open>x.strip\<close> or \<^verbatim>\<open>for p in x\<close> on a value without that method;
  \<open>MultipleResultsFound\<close> is raised by \<^verbatim>\<open>one_or_none()\<close>; \<open>RuntimeError\<close> by
  \<^verbatim>\<open>SteamDTClient._ensure_key\<close>; \<open>RequestError\<close> stands for a failure of the HTTP call
  and \<open>CommitError\<close> for a failure of \<^verbatim>\<open>commit()\<close>.
\<close>

datatype error =
    AttributeError
  | TypeError
  | MultipleResultsFound
  | RuntimeError
  | RequestError string
  | CommitError string

datatype client_ref = TheClient | Client1 | Client2

text \<open>
  The world outside the job object: the three tables, the log of the calls made to the
  price API (which client, which names; a ghost field), and whether a commit fails.
  \<open>commit_error w k rows\<close> is the exception \<^verbatim>\<open>commit()\<close> raises for the pending \<open>rows\<close>
  after \<open>k\<close> API calls, if any.
\<close>

record 'f world =
  items :: "Item list"
  platforms :: "Platform list"
  prices :: "'f Price list"
  api_calls :: "(client_ref \<times> string list) list"
  commit_error :: "nat \<Rightarrow> 'f Price list \<Rightarrow> error option"

text \<open>
  \<^verbatim>\<open>SteamDTClient\<close>: the key, and what the server answers to the \<open>k\<close>-th call for the
  given names (\<open>Inl\<close> when \<^verbatim>\<open>post\<close>, \<^verbatim>\<open>raise_for_status\<close> or \<^verbatim>\<open>json\<close> raises).
  \<^verbatim>\<open>
  def _ensure_key(self):
      if not self.api_key:
          raise RuntimeError(...)

  def get_price_batch(self, market_hash_names):
      self._ensure_key()
      ...
      resp = self.session.post(url, json=json_body, timeout=60)
      resp.raise_for_status()
      return resp.json()
  \<close>
\<close>

record 'f client =
  api_key :: "string option"
  respond :: "nat \<Rightarrow> string list \<Rightarrow> error + 'f json"

definition has_key :: "'f client \<Rightarrow> bool" where
  "has_key c = (case api_key c of None \<Rightarrow> False | Some k \<Rightarrow> k \<noteq> [])"

definition get_price_batch :: "'f client \<Rightarrow> nat \<Rightarrow> string list \<Rightarrow> error + 'f json" where
  "get_price_batch c k names = (if \<not> has_key c then Inl RuntimeError else respond c k names)"

text \<open>\<^verbatim>\<open>Query.one_or_none()\<close>\<close>

fun one_or_none :: "'a list \<Rightarrow> error + 'a option" where
  "one_or_none [] = Inr None"
| "one_or_none [x] = Inr (Some x)"
| "one_or_none (x # y # zs) = Inl MultipleResultsFound"

text \<open>\<^verbatim>\<open>int(sess.query(func.max(Item.id)).scalar() or 0)\<close>\<close>

definition max_item_id :: "Item list \<Rightarrow> int" where
  "max_item_id its = (case its of [] \<Rightarrow> 0 | x # xs \<Rightarrow> fold max (map Item_id xs) (Item_id x))"

text \<open>
  \<^verbatim>\<open>
  sess.query(Item).filter(Item.id >= start_id, Item.id <= end_id).order_by(Item.id.asc()).all()
  \<close>
\<close>

definition items_in_range :: "'f world \<Rightarrow> int \<Rightarrow> int \<Rightarrow> Item list" where
  "items_in_range w start_id end_id =
     sort_key Item_id (filter (\<lambda>it. start_id \<le> Item_id it \<and> Item_id it \<le> end_id) (items w))"

section \<open>Normalising and writing one response\<close>

text \<open>
  Both jobs run the same statements between \<^verbatim>\<open>sess2 = self.get_session()\<close> and
  \<^verbatim>\<open>sess2.commit()\<close>; they are modelled once. First the list of item records:
  \<^verbatim>\<open>
  data_list = []
  if isinstance(resp, dict):
      if isinstance(resp.get("data"), list):
          data_list = resp.get("data")
      elif isinstance(resp.get("items"), list):
          data_list = resp.get("items")
      elif isinstance(resp.get("results"), list):
          data_list = resp.get("results")
  elif isinstance(resp, list):
      data_list = resp
  \<close>
\<close>

definition data_list_of :: "'f json \<Rightarrow> 'f json list" where
  "data_list_of resp =
     (case resp of
        JDict d \<Rightarrow>
          (case dict_get d ''data'' of
             JList xs \<Rightarrow> xs
           | _ \<Rightarrow> (case dict_get d ''items'' of
                     JList xs \<Rightarrow> xs
                   | _ \<Rightarrow> (case dict_get d ''results'' of
                             JList xs \<Rightarrow> xs
                           | _ \<Rightarrow> [])))
      | JList xs \<Rightarrow> xs
      | _ \<Rightarrow> [])"

text \<open>
  The fields of one platform entry \<open>p\<close>, a dictionary:
  \<^verbatim>\<open>
  plat_name_raw = (p.get("platform") or p.get("name") or p.get("plat") or "")
  pid = (p.get("itemId") or p.get("platformItemId") or p.get("platform_item_id") or None)
  sell = _to_float(p.get("sell_price") or p.get("sellPrice") or p.get("sell") or p.get("price"))
  buy = _to_float(p.get("bidding_price") or p.get("biddingPrice") or p.get("buy") or p.get("buy_price"))
  sell_count = _to_int(p.get("sell_count") or p.get("sellCount"))
  bidding_count = _to_int(p.get("bidding_count") or p.get("biddingCount"))
  ut = p.get("update_time") or p.get("updateTime")
  ut_int = _to_int(ut) if ut is not None else None
  if ut_int is not None and ut_int < 1000000000000:
      ut_int = ut_int * 1000
  \<close>
\<close>

definition plat_name_raw :: "'f builtins \<Rightarrow> (string \<times> 'f json) list \<Rightarrow> 'f json" where
  "plat_name_raw bi p =
     py_or bi (py_or bi (py_or bi (dict_get p ''platform'') (dict_get p ''name''))
                        (dict_get p ''plat''))
              (JStr [])"

definition pid :: "'f builtins \<Rightarrow> (string \<times> 'f json) list \<Rightarrow> 'f json" where
  "pid bi p =
     py_or bi (py_or bi (py_or bi (dict_get p ''itemId'') (dict_get p ''platformItemId''))
                        (dict_get p ''platform_item_id''))
              JNone"

definition sell :: "'f builtins \<Rightarrow> (string \<times> 'f json) list \<Rightarrow> 'f option" where
  "sell bi p =
     to_float bi
       (py_or bi (py_or bi (py_or bi (dict_get p ''sell_price'') (dict_get p ''sellPrice''))
                           (dict_get p ''sell''))
                 (dict_get p ''price''))"

definition buy :: "'f builtins \<Rightarrow> (string \<times> 'f json) list \<Rightarrow> 'f option" where
  "buy bi p =
     to_float bi
       (py_or bi (py_or bi (py_or bi (dict_get p ''bidding_price'') (dict_get p ''biddingPrice''))
                           (dict_get p ''buy''))
                 (dict_get p ''buy_price''))"

definition sell_count_of :: "'f builtins \<Rightarrow> (string \<times> 'f json) list \<Rightarrow> int option" where
  "sell_count_of bi p = to_int bi (py_or bi (dict_get p ''sell_count'') (dict_get p ''sellCount''))"

definition bidding_count_of :: "'f builtins \<Rightarrow> (string \<times> 'f json) list \<Rightarrow> int option" where
  "bidding_count_of bi p =
     to_int bi (py_or bi (dict_get p ''bidding_count'') (dict_get p ''biddingCount''))"

definition ut :: "'f builtins \<Rightarrow> (string \<times> 'f json) list \<Rightarrow> 'f json" where
  "ut bi p = py_or bi (dict_get p ''update_time'') (dict_get p ''updateTime'')"

definition ut_int :: "'f builtins \<Rightarrow> (string \<times> 'f json) list \<Rightarrow> int option" where
  "ut_int bi p =
     (let u = (if ut bi p \<noteq> JNone then to_int bi (ut bi p) else None)
      in case u of
           None \<Rightarrow> None
         | Some n \<Rightarrow> if n < 1000000000000 then Some (n * 1000) else Some n)"

text \<open>
  The body of \<^verbatim>\<open>for p in plats\<close>. \<^verbatim>\<open>p.get\<close> raises AttributeError unless \<open>p\<close> is a
  dictionary, and \<^verbatim>\<open>canonical_platform_name\<close> calls \<^verbatim>\<open>.strip()\<close> on its argument, which
  raises AttributeError unless that is a string.
  \<^verbatim>\<open>
  plat_name = canonical_platform_name(plat_name_raw)
  ...
  plat_id_val = None
  if item_id_val:
      plat_rec = (sess2.query(Platform)
                  .filter(Platform.item_id == item_id_val, Platform.name == plat_name)
                  .one_or_none())
      plat_id_val = plat_rec.id if plat_rec else None
  row = Price(market_hash_name=mhn, platform=plat_name,
              platform_item_id=str(pid) if pid is not None else None,
              item_id=item_id_val, platform_id=plat_id_val,
              sell_price=sell, bidding_price=buy,
              sell_count=sell_count, bidding_count=bidding_count,
              update_time=ut_int, update_time_text=_format_beijing_text(ut_int))
  sess2.add(row)
  \<close>
\<close>

definition plat_id_val :: "'f world \<Rightarrow> int option \<Rightarrow> string \<Rightarrow> error + int option" where
  "plat_id_val w item_id_val plat_name =
     (case item_id_val of
        None \<Rightarrow> Inr None
      | Some i \<Rightarrow>
          if i = 0 then Inr None
          else (case one_or_none
                       (filter (\<lambda>r. Platform_item_id r = i \<and> Platform_name r = plat_name)
                          (platforms w)) of
                  Inl e \<Rightarrow> Inl e
                | Inr plat_rec \<Rightarrow> Inr (map_option Platform_id plat_rec)))"

definition platform_row ::
  "'f builtins \<Rightarrow> 'f world \<Rightarrow> string \<Rightarrow> int option \<Rightarrow> 'f json \<Rightarrow> error + 'f Price" where
  "platform_row bi w mhn item_id_val p =
     (case p of
        JDict d \<Rightarrow>
          (case plat_name_raw bi d of
             JStr raw \<Rightarrow>
               (let plat_name = canonical_platform_name raw
                in case plat_id_val w item_id_val plat_name of
                     Inl e \<Rightarrow> Inl e
                   | Inr pl \<Rightarrow>
                       Inr \<lparr> market_hash_name = mhn,
                             platform = plat_name,
                             platform_item_id =
                               (if pid bi d \<noteq> JNone then Some (str_of bi (pid bi d)) else None),
                             item_id = item_id_val,
                             platform_id = pl,
                             sell_price = sell bi d,
                             bidding_price = buy bi d,
                             sell_count = sell_count_of bi d,
                             bidding_count = bidding_count_of bi d,
                             update_time = ut_int bi d,
                             update_time_text = format_beijing_text bi (ut_int bi d) \<rparr>)
           | _ \<Rightarrow> Inl AttributeError)
      | _ \<Rightarrow> Inl AttributeError)"

fun plat_rows ::
  "'f builtins \<Rightarrow> 'f world \<Rightarrow> string \<Rightarrow> int option \<Rightarrow> 'f json list \<Rightarrow> error + 'f Price list" where
  "plat_rows bi w mhn item_id_val [] = Inr []"
| "plat_rows bi w mhn item_id_val (p # ps) =
     (case platform_row bi w mhn item_id_val p of
        Inl e \<Rightarrow> Inl e
      | Inr row \<Rightarrow>
          (case plat_rows bi w mhn item_id_val ps of
             Inl e \<Rightarrow> Inl e
           | Inr rows \<Rightarrow> Inr (row # rows)))"

text \<open>
  The body of \<^verbatim>\<open>for it in (data_list or [])\<close>:
  \<^verbatim>\<open>
  mhn = (it.get("marketHashName") or it.get("market_hash_name") or "").strip()
  if not mhn:
      continue
  plats = it.get("platforms") or it.get("platformList") or it.get("dataList") or []
  if isinstance(plats, dict):
      plats = [plats]
  item_rec = sess2.query(Item).filter(Item.market_hash_name == mhn).one_or_none()
  item_id_val = item_rec.id if item_rec else None
  for p in plats:
      ...
  \<close>
  \<open>iter_plats\<close> is what \<^verbatim>\<open>for p in plats\<close> iterates over: the elements of a list, the
  one-character strings of a string, and TypeError for a value that is not iterable.
\<close>

definition mhn_raw :: "'f builtins \<Rightarrow> (string \<times> 'f json) list \<Rightarrow> 'f json" where
  "mhn_raw bi it =
     py_or bi (py_or bi (dict_get it ''marketHashName'') (dict_get it ''market_hash_name''))
              (JStr [])"

definition plats :: "'f builtins \<Rightarrow> (string \<times> 'f json) list \<Rightarrow> 'f json" where
  "plats bi it =
     (let ps = py_or bi (py_or bi (py_or bi (dict_get it ''platforms'')
                                            (dict_get it ''platformList''))
                                  (dict_get it ''dataList''))
                        (JList [])
      in case ps of JDict d \<Rightarrow> JList [JDict d] | _ \<Rightarrow> ps)"

fun iter_plats :: "'f json \<Rightarrow> error + 'f json list" where
  "iter_plats (JList xs) = Inr xs"
| "iter_plats (JStr s) = Inr (map (\<lambda>c. JStr [c]) s)"
| "iter_plats (JDict d) = Inr (map (\<lambda>kv. JStr (fst kv)) d)"
| "iter_plats JNone = Inl TypeError"
| "iter_plats (JBool b) = Inl TypeError"
| "iter_plats (JInt n) = Inl TypeError"
| "iter_plats (JFloat f) = Inl TypeError"

definition item_id_val :: "'f world \<Rightarrow> string \<Rightarrow> error + int option" where
  "item_id_val w mhn =
     (case one_or_none (filter (\<lambda>r. Item_market_hash_name r = mhn) (items w)) of
        Inl e \<Rightarrow> Inl e
      | Inr item_rec \<Rightarrow> Inr (map_option Item_id item_rec))"

definition item_rows :: "'f builtins \<Rightarrow> 'f world \<Rightarrow> 'f json \<Rightarrow> error + 'f Price list" where
  "item_rows bi w it =
     (case it of
        JDict d \<Rightarrow>
          (case mhn_raw bi d of
             JStr s \<Rightarrow>
               (let mhn = py_strip s
                in if mhn = [] then Inr []
                   else (case item_id_val w mhn of
                           Inl e \<Rightarrow> Inl e
                         | Inr iid \<Rightarrow>
                             (case iter_plats (plats bi d) of
                                Inl e \<Rightarrow> Inl e
                              | Inr ps \<Rightarrow> plat_rows bi w mhn iid ps)))
           | _ \<Rightarrow> Inl AttributeError)
      | _ \<Rightarrow> Inl AttributeError)"

fun window_rows :: "'f builtins \<Rightarrow> 'f world \<Rightarrow> 'f json list \<Rightarrow> error + 'f Price list" where
  "window_rows bi w [] = Inr []"
| "window_rows bi w (it # its) =
     (case item_rows bi w it of
        Inl e \<Rightarrow> Inl e
      | Inr rows \<Rightarrow>
          (case window_rows bi w its of
             Inl e \<Rightarrow> Inl e
           | Inr rest \<Rightarrow> Inr (rows @ rest)))"

text \<open>
  \<^verbatim>\<open>
  sess2 = self.get_session()
  try:
      ... (the loops above)
      sess2.commit()
  except Exception:
      sess2.rollback()
      raise
  finally:
      sess2.close()
  \<close>
  The rows added to the session are pending until the commit; a rollback drops them, so
  on an exception the table is the one before the window.
\<close>

definition write_window :: "'f builtins \<Rightarrow> 'f world \<Rightarrow> 'f json \<Rightarrow> error + 'f world" where
  "write_window bi w resp =
     (case window_rows bi w (data_list_of resp) of
        Inl e \<Rightarrow> Inl e
      | Inr rows \<Rightarrow>
          (case commit_error w (length (api_calls w)) rows of
             Some e \<Rightarrow> Inl e
           | None \<Rightarrow> Inr (w\<lparr>prices := prices w @ rows\<rparr>)))"

section \<open>Scheduler state\<close>

text \<open>
  The fields both job classes set in \<^verbatim>\<open>__init__\<close>. \<open>stop_event\<close> and \<open>pause_event\<close> are
  the two \<^verbatim>\<open>threading.Event\<close> flags, \<open>thread\<close> says whether \<^verbatim>\<open>self._thread\<close> holds a
  thread. Times are seconds.
\<close>

record sched =
  default_batch_size :: int
  default_interval :: int
  thread :: bool
  stop_event :: bool
  pause_event :: bool
  running :: bool
  paused :: bool
  max_id :: int
  completed_count :: int
  current_start_id :: int
  batch_size :: int
  interval_sec :: int
  last_processed_range :: "(int \<times> int) option"
  next_run_ts :: "real option"

record 'f PriceBatchJob = sched +
  client :: "'f client"

record 'f DualApiSequentialJob = sched +
  client1 :: "'f client option"
  client2 :: "'f client option"
  next_client_id :: int
  last_error :: "error option"

text \<open>
  \<^verbatim>\<open>
  def __init__(self, client, get_session, batch_size: int = 100, interval_sec: int = 60):
      self.client = client
      self.default_batch_size = max(1, int(batch_size))
      self.default_interval = max(1, int(interval_sec))
      self._thread = None
      self._stop_event = threading.Event()
      self._pause_event = threading.Event()
      self.running = False
      self.paused = False
      self.max_id = 0
      self.completed_count = 0
      self.current_start_id = 0
      self.batch_size = self.default_batch_size
      self.interval_sec = self.default_interval
      self.last_processed_range = None
      self.next_run_ts = None
  \<close>
  The dual job's \<^verbatim>\<open>__init__\<close> takes two clients, and sets \<^verbatim>\<open>next_client_id = 1\<close> and
  \<^verbatim>\<open>last_error = None\<close> as well.
\<close>

definition PriceBatchJob_init :: "'f client \<Rightarrow> int \<Rightarrow> int \<Rightarrow> 'f PriceBatchJob" where
  "PriceBatchJob_init c bs iv =
     \<lparr> default_batch_size = max 1 bs, default_interval = max 1 iv,
       thread = False, stop_event = False, pause_event = False,
       running = False, paused = False,
       max_id = 0, completed_count = 0, current_start_id = 0,
       batch_size = max 1 bs, interval_sec = max 1 iv,
       last_processed_range = None, next_run_ts = None,
       client = c \<rparr>"

definition DualApiSequentialJob_init ::
  "'f client option \<Rightarrow> 'f client option \<Rightarrow> int \<Rightarrow> int \<Rightarrow> 'f DualApiSequentialJob" where
  "DualApiSequentialJob_init c1 c2 bs iv =
     \<lparr> default_batch_size = max 1 bs, default_interval = max 1 iv,
       thread = False, stop_event = False, pause_event = False,
       running = False, paused = False,
       max_id = 0, completed_count = 0, current_start_id = 0,
       batch_size = max 1 bs, interval_sec = max 1 iv,
       last_processed_range = None, next_run_ts = None,
       client1 = c1, client2 = c2, next_client_id = 1, last_error = None \<rparr>"

text \<open>
  \<^verbatim>\<open>status()\<close> copies the state into a dictionary. The snapshot has the entries that are
  copies of fields or integer arithmetic on them; \<^verbatim>\<open>percent\<close> (a float division) and
  \<^verbatim>\<open>nextRunSeconds\<close> (a clock reading) are left out.
  \<^verbatim>\<open>
  "running": self.running,
  "paused": self.paused,
  "state": ("paused" if self.paused else ("running" if self.running else "idle")),
  "maxId": self.max_id,
  "completedCount": self.completed_count,
  "currentStartId": self.current_start_id,
  "currentEndIdNext": min(self.max_id, self.current_start_id + self.batch_size - 1)
                      if self.current_start_id > 0 else 0,
  "lastProcessedRange": self.last_processed_range,
  "intervalSec": self.interval_sec,
  "batchSize": self.batch_size,
  \<close>
\<close>

record snapshot =
  s_running :: bool
  s_paused :: bool
  s_state :: string
  s_maxId :: int
  s_completedCount :: int
  s_currentStartId :: int
  s_currentEndIdNext :: int
  s_lastProcessedRange :: "(int \<times> int) option"
  s_intervalSec :: int
  s_batchSize :: int

definition status :: "'a sched_scheme \<Rightarrow> snapshot" where
  "status j =
     \<lparr> s_running = running j,
       s_paused = paused j,
       s_state = (if paused j then ''paused'' else if running j then ''running'' else ''idle''),
       s_maxId = max_id j,
       s_completedCount = completed_count j,
       s_currentStartId = current_start_id j,
       s_currentEndIdNext =
         (if current_start_id j > 0 then min (max_id j) (current_start_id j + batch_size j - 1)
          else 0),
       s_lastProcessedRange = last_processed_range j,
       s_intervalSec = interval_sec j,
       s_batchSize = batch_size j \<rparr>"

section \<open>Control operations\<close>


definition resume :: "'a sched_scheme \<Rightarrow> 'a sched_scheme" where
  "resume j = (if running j \<and> paused j then j\<lparr>paused := False, pause_event := False\<rparr> else j)"

text \<open>
  \<^verbatim>\<open>
  def stop(self):
      with self._lock:
          if self.running:
              self._stop_event.set()
      t = None
      with self._lock:
          t = self._thread
      if t and t.is_alive():
          try:
              t.join(timeout=2.0)
          except Exception:
              pass
      with self._lock:
          self.running = False
          self.paused = False
          self._thread = None
          self.next_run_ts = None
      return self.status()
  \<close>
  The join waits and changes no field.
\<close>

definition stop :: "'a sched_scheme \<Rightarrow> 'a sched_scheme" where
  "stop j =
     (let j1 = (if running j then j\<lparr>stop_event := True\<rparr> else j)
      in j1\<lparr>running := False, paused := False, thread := False, next_run_ts := None\<rparr>)"

text \<open>
  \<^verbatim>\<open>x or d\<close> on an optional integer argument of \<^verbatim>\<open>start\<close>: \<open>d\<close> when \<open>x\<close> is
  \<^verbatim>\<open>None\<close> or \<open>0\<close>.
\<close>

definition or_default :: "int option \<Rightarrow> int \<Rightarrow> int" where
  "or_default x d = (case x of None \<Rightarrow> d | Some v \<Rightarrow> if v = 0 then d else v)"

text \<open>
  \<^verbatim>\<open>
  def start(self, start_id=None, batch_size=None, interval_sec=None):
      with self._lock:
          if self.running:
              return self.status()
          self._stop_event.clear()
          self._pause_event.clear()
          self.paused = False
          self.running = True
          self.batch_size = max(1, int(batch_size or self.default_batch_size))
          self.interval_sec = max(1, int(interval_sec or self.default_interval))
          sess = self.get_session()
          try:
              self.max_id = int(sess.query(func.max(Item.id)).scalar() or 0)
          finally:
              sess.close()
          self.current_start_id = int(start_id or 1)
          self.completed_count = max(0, self.current_start_id - 1)
          self.last_processed_range = None
          self.next_run_ts = None
          self._thread = threading.Thread(target=self._loop, ...)
          self._thread.start()
      return self.status()
  \<close>
\<close>

definition start_fields ::
  "'f world \<Rightarrow> int option \<Rightarrow> int option \<Rightarrow> int option \<Rightarrow> 'a sched_scheme \<Rightarrow> 'a sched_scheme" where
  "start_fields w start_id bs iv j =
     j\<lparr> stop_event := False, pause_event := False,
        paused := False, running := True,
        batch_size := max 1 (or_default bs (default_batch_size j)),
        interval_sec := max 1 (or_default iv (default_interval j)),
        max_id := max_item_id (items w),
        current_start_id := or_default start_id 1,
        completed_count := max 0 (or_default start_id 1 - 1),
        last_processed_range := None,
        next_run_ts := None \<rparr>"

definition PriceBatchJob_start ::
  "'f world \<Rightarrow> int option \<Rightarrow> int option \<Rightarrow> int option \<Rightarrow> 'f PriceBatchJob
     \<Rightarrow> snapshot \<times> 'f PriceBatchJob" where
  "PriceBatchJob_start w start_id bs iv j =
     (if running j then (status j, j)
      else (let j' = (start_fields w start_id bs iv j)\<lparr>thread := True\<rparr>
            in (status j', j')))"

text \<open>
  The dual job checks its two clients first, and resets the client pointer and the last
  error:
  \<^verbatim>\<open>
          if self.running:
              return self.status()
          if not (self.client1 and getattr(self.client1, "api_key", None)):
              return {"running": False, "paused": False, "error": "... STEAMDT_API_KEY_1"}
          if not (self.client2 and getattr(self.client2, "api_key", None)):
              return {"running": False, "paused": False, "error": "... STEAMDT_API_KEY_2"}
          ...
          self.next_client_id = 1
          self.last_error = None
  \<close>
  The two messages start with the same three Chinese characters ("not configured"),
  written here as their nine UTF-8 bytes.
\<close>

definition not_configured :: string where
  "not_configured =
     [char_of (0xE6::nat), char_of (0x9C::nat), char_of (0xAA::nat),
      char_of (0xE9::nat), char_of (0x85::nat), char_of (0x8D::nat),
      char_of (0xE7::nat), char_of (0xBD::nat), char_of (0xAE::nat)]"

text \<open>
  The dual job's \<^verbatim>\<open>status()\<close> has three more entries:
  \<^verbatim>\<open>
  "nextClientId": self.next_client_id,
  "alternating": True,
  "lastError": self.last_error,
  \<close>
\<close>

record dual_snapshot = snapshot +
  s_nextClientId :: int
  s_alternating :: bool
  s_lastError :: "error option"

definition DualApiSequentialJob_status :: "'f DualApiSequentialJob \<Rightarrow> dual_snapshot" where
  "DualApiSequentialJob_status j =
     \<lparr> s_running = running j,
       s_paused = paused j,
       s_state = (if paused j then ''paused'' else if running j then ''running'' else ''idle''),
       s_maxId = max_id j,
       s_completedCount = completed_count j,
       s_currentStartId = current_start_id j,
       s_currentEndIdNext =
         (if current_start_id j > 0 then min (max_id j) (current_start_id j + batch_size j - 1)
          else 0),
       s_lastProcessedRange = last_processed_range j,
       s_intervalSec = interval_sec j,
       s_batchSize = batch_size j,
       s_nextClientId = next_client_id j,
       s_alternating = True,
       s_lastError = last_error j \<rparr>"

text \<open>
  What the dual job's \<^verbatim>\<open>start\<close> returns: the error dictionary
  \<^verbatim>\<open>{"running": ..., "paused": ..., "error": ...}\<close> or the status.
\<close>

datatype start_result =
    StartError bool bool string
  | Status dual_snapshot

definition client_ok :: "'f client option \<Rightarrow> bool" where
  "client_ok c = (case c of None \<Rightarrow> False | Some cl \<Rightarrow> has_key cl)"

definition DualApiSequentialJob_start ::
  "'f world \<Rightarrow> int option \<Rightarrow> int option \<Rightarrow> int option \<Rightarrow> 'f DualApiSequentialJob
     \<Rightarrow> start_result \<times> 'f DualApiSequentialJob" where
  "DualApiSequentialJob_start w start_id bs iv j =
     (if running j then (Status (DualApiSequentialJob_status j), j)
      else if \<not> client_ok (client1 j) then
        (StartError False False (not_configured @ '' STEAMDT_API_KEY_1''), j)
      else if \<not> client_ok (client2 j) then
        (StartError False False (not_configured @ '' STEAMDT_API_KEY_2''), j)
      else (let j' = (start_fields w start_id bs iv j)
                       \<lparr>next_client_id := 1, last_error := None, thread := True\<rparr>
            in (Status (DualApiSequentialJob_status j'), j')))"

section \<open>Processing one window\<close>

text \<open>
  \<^verbatim>\<open>
  start_id = self.current_start_id
  end_id = min(self.max_id, start_id + self.batch_size - 1)
  \<close>
\<close>

definition next_window :: "'a sched_scheme \<Rightarrow> int \<times> int" where
  "next_window j = (current_start_id j, min (max_id j) (current_start_id j + batch_size j - 1))"

text \<open>
  \<^verbatim>\<open>
  self.last_processed_range = (start_id, end_id)
  self.completed_count = end_id
  self.current_start_id = end_id + 1
  \<close>
\<close>

definition advance :: "int \<Rightarrow> int \<Rightarrow> 'a sched_scheme \<Rightarrow> 'a sched_scheme" where
  "advance start_id end_id j =
     j\<lparr> last_processed_range := Some (start_id, end_id),
        completed_count := end_id,
        current_start_id := end_id + 1 \<rparr>"

text \<open>\<^verbatim>\<open>names = [it.market_hash_name for it in items if it.market_hash_name]\<close>\<close>

definition names_of :: "Item list \<Rightarrow> string list" where
  "names_of its = map Item_market_hash_name (filter (\<lambda>it. Item_market_hash_name it \<noteq> []) its)"

text \<open>
  \<^verbatim>\<open>PriceBatchJob._run_one_range\<close>. The result is \<open>Inl e\<close> when the method raises \<open>e\<close>.
  \<^verbatim>\<open>
  def _run_one_range(self):
      with self._lock:
          start_id = self.current_start_id
          end_id = min(self.max_id, start_id + self.batch_size - 1)
      if start_id > end_id or start_id <= 0:
          return
      sess = self.get_session()
      try:
          items = (...)
          if not items:
              return
          names = [it.market_hash_name for it in items if it.market_hash_name]
      finally:
          sess.close()
      if not names:
          with self._lock:
              self.last_processed_range = (start_id, end_id)
              self.completed_count = end_id
              self.current_start_id = end_id + 1
          return
      resp = self.client.get_price_batch(names)
      sess2 = self.get_session()
      try:
          ...
          sess2.commit()
      except Exception:
          sess2.rollback()
          raise
      finally:
          sess2.close()
      with self._lock:
          self.last_processed_range = (start_id, end_id)
          self.completed_count = end_id
          self.current_start_id = end_id + 1
  \<close>
\<close>

definition PriceBatchJob_run_one_range ::
  "'f builtins \<Rightarrow> 'f PriceBatchJob \<Rightarrow> 'f world
     \<Rightarrow> (error + unit) \<times> 'f PriceBatchJob \<times> 'f world" where
  "PriceBatchJob_run_one_range bi j w =
     (let start_id = fst (next_window j); end_id = snd (next_window j)
      in if start_id > end_id \<or> start_id \<le> 0 then (Inr (), j, w)
         else let its = items_in_range w start_id end_id
              in if its = [] then (Inr (), j, w)
                 else let names = names_of its
                      in if names = [] then (Inr (), advance start_id end_id j, w)
                         else let w1 = w\<lparr>api_calls := api_calls w @ [(TheClient, names)]\<rparr>
                              in case get_price_batch (client j) (length (api_calls w)) names of
                                   Inl e \<Rightarrow> (Inl e, j, w1)
                                 | Inr resp \<Rightarrow>
                                     (case write_window bi w1 resp of
                                        Inl e \<Rightarrow> (Inl e, j, w1)
                                      | Inr w2 \<Rightarrow> (Inr (), advance start_id end_id j, w2)))"

text \<open>
  \<^verbatim>\<open>DualApiSequentialJob._run_one_range\<close> differs in four places: it reads
  \<^verbatim>\<open>client_id = self.next_client_id\<close> with the window; it advances the cursor when the
  window has no items; it calls the client the pointer selects,
  \<^verbatim>\<open>
  cli = self.client1 if client_id == 1 else self.client2
  resp = cli.get_price_batch(names)
  \<close>
  (AttributeError when that client is \<^verbatim>\<open>None\<close>); and after the commit it also sets
  \<^verbatim>\<open>self.next_client_id = 2 if client_id == 1 else 1\<close>.
\<close>

definition DualApiSequentialJob_run_one_range ::
  "'f builtins \<Rightarrow> 'f DualApiSequentialJob \<Rightarrow> 'f world
     \<Rightarrow> (error + unit) \<times> 'f DualApiSequentialJob \<times> 'f world" where
  "DualApiSequentialJob_run_one_range bi j w =
     (let start_id = fst (next_window j); end_id = snd (next_window j);
          client_id = next_client_id j
      in if start_id > end_id \<or> start_id \<le> 0 then (Inr (), j, w)
         else let its = items_in_range w start_id end_id
              in if its = [] then (Inr (), advance start_id end_id j, w)
                 else let names = names_of its
                      in if names = [] then (Inr (), advance start_id end_id j, w)
                         else case (if client_id = 1 then client1 j else client2 j) of
                                None \<Rightarrow> (Inl AttributeError, j, w)
                              | Some cli \<Rightarrow>
                                  (let w1 = w\<lparr>api_calls := api_calls w @
                                              [(if client_id = 1 then Client1 else Client2, names)]\<rparr>
                                   in case get_price_batch cli (length (api_calls w)) names of
                                        Inl e \<Rightarrow> (Inl e, j, w1)
                                      | Inr resp \<Rightarrow>
                                          (case write_window bi w1 resp of
                                             Inl e \<Rightarrow> (Inl e, j, w1)
                                           | Inr w2 \<Rightarrow>
                                               (Inr (),
                                                (advance start_id end_id j)
                                                  \<lparr>next_client_id := (if client_id = 1 then 2 else 1)\<rparr>,
                                                w2))))"

section \<open>The background loop\<close>

text \<open>
  \<^verbatim>\<open>
  def _loop(self):
      while not self._stop_event.is_set():
          while self.paused and not self._stop_event.is_set():
              time.sleep(0.2)
          if self._stop_event.is_set():
              break
          try:
              self._run_one_range()
          except Exception:
              pass
          with self._lock:
              done = self.completed_count >= self.max_id
              self.next_run_ts = time.time() + self.interval_sec
          if done:
              self.stop()
              break
          remain = self.interval_sec
          while remain > 0 and not self._stop_event.is_set():
              if self.paused:
                  break
              time.sleep(0.2)
              remain -= 0.2
  \<close>
  The thread is modelled by its turns. A turn is either one sleep of the pause wait
  (the job is paused: nothing changes) or one pass through the body: a window, the test for
  the end, and the interval wait, which changes no field. The first component of the result
  says whether the loop goes on. The control operations of the other threads happen
  between turns. \<open>now\<close> is the reading of \<^verbatim>\<open>time.time()\<close>.
\<close>

definition PriceBatchJob_loop_turn ::
  "'f builtins \<Rightarrow> real \<Rightarrow> 'f PriceBatchJob \<Rightarrow> 'f world \<Rightarrow> bool \<times> 'f PriceBatchJob \<times> 'f world" where
  "PriceBatchJob_loop_turn bi now j w =
     (if stop_event j then (False, j, w)
      else if paused j then (True, j, w)
      else (case PriceBatchJob_run_one_range bi j w of
              (r, j1, w1) \<Rightarrow>
                (let done = (completed_count j1 \<ge> max_id j1);
                     j2 = j1\<lparr>next_run_ts := Some (now + real_of_int (interval_sec j1))\<rparr>
                 in if done then (False, stop j2, w1) else (True, j2, w1))))"

text \<open>
  The dual job records the outcome of the window:
  \<^verbatim>\<open>
          try:
              self._run_one_range()
              self.last_error = None
          except Exception as e:
              self.last_error = str(e)
  \<close>
  The model keeps the exception where the source keeps its text.
\<close>

definition DualApiSequentialJob_loop_turn ::
  "'f builtins \<Rightarrow> real \<Rightarrow> 'f DualApiSequentialJob \<Rightarrow> 'f world
     \<Rightarrow> bool \<times> 'f DualApiSequentialJob \<times> 'f world" where
  "DualApiSequentialJob_loop_turn bi now j w =
     (if stop_event j then (False, j, w)
      else if paused j then (True, j, w)
      else (case DualApiSequentialJob_run_one_range bi j w of
              (r, j1, w1) \<Rightarrow>
                (let j1' = j1\<lparr>last_error := (case r of Inl e \<Rightarrow> Some e | Inr u \<Rightarrow> None)\<rparr>;
                     done = (completed_count j1' \<ge> max_id j1');
                     j2 = j1'\<lparr>next_run_ts := Some (now + real_of_int (interval_sec j1'))\<rparr>
                 in if done then (False, stop j2, w1) else (True, j2, w1))))"

text \<open>
  The loop runs one turn for each clock reading it is given; the list of readings is its
  fuel. The result is \<open>None\<close> when the readings run out before the loop ends.
\<close>

fun PriceBatchJob_loop ::
  "'f builtins \<Rightarrow> real list \<Rightarrow> 'f PriceBatchJob \<Rightarrow> 'f world
     \<Rightarrow> ('f PriceBatchJob \<times> 'f world) option" where
  "PriceBatchJob_loop bi [] j w = None"
| "PriceBatchJob_loop bi (now # ts) j w =
     (case PriceBatchJob_loop_turn bi now j w of
        (True, j', w') \<Rightarrow> PriceBatchJob_loop bi ts j' w'
      | (False, j', w') \<Rightarrow> Some (j', w'))"

fun DualApiSequentialJob_loop ::
  "'f builtins \<Rightarrow> real list \<Rightarrow> 'f DualApiSequentialJob \<Rightarrow> 'f world
     \<Rightarrow> ('f DualApiSequentialJob \<times> 'f world) option" where
  "DualApiSequentialJob_loop bi [] j w = None"
| "DualApiSequentialJob_loop bi (now # ts) j w =
     (case DualApiSequentialJob_loop_turn bi now j w of
        (True, j', w') \<Rightarrow> DualApiSequentialJob_loop bi ts j' w'
      | (False, j', w') \<Rightarrow> Some (j', w'))"

text \<open>
  The job and the world after the loop has taken one turn for each clock reading (fewer
  when the loop ends before).
\<close>

fun DualApiSequentialJob_after ::
  "'f builtins \<Rightarrow> real list \<Rightarrow> 'f DualApiSequentialJob \<Rightarrow> 'f world
     \<Rightarrow> 'f DualApiSequentialJob \<times> 'f world" where
  "DualApiSequentialJob_after bi [] j w = (j, w)"
| "DualApiSequentialJob_after bi (now # ts) j w =
     (case DualApiSequentialJob_loop_turn bi now j w of
        (True, j', w') \<Rightarrow> DualApiSequentialJob_after bi ts j' w'
      | (False, j', w') \<Rightarrow> (j', w'))"

text \<open>
  The windows the loop processes, in order. A turn processes the window it reads unless
  it is a pause wait, the loop has been stopped, or the guard
  \<^verbatim>\<open>if start_id > end_id or start_id <= 0: return\<close> holds.
\<close>

definition window_of_turn :: "'a sched_scheme \<Rightarrow> (int \<times> int) list" where
  "window_of_turn j =
     (if stop_event j \<or> paused j \<or> fst (next_window j) > snd (next_window j)
         \<or> fst (next_window j) \<le> 0
      then [] else [next_window j])"

fun PriceBatchJob_windows ::
  "'f builtins \<Rightarrow> real list \<Rightarrow> 'f PriceBatchJob \<Rightarrow> 'f world \<Rightarrow> (int \<times> int) list" where
  "PriceBatchJob_windows bi [] j w = []"
| "PriceBatchJob_windows bi (now # ts) j w =
     window_of_turn j @
     (case PriceBatchJob_loop_turn bi now j w of
        (True, j', w') \<Rightarrow> PriceBatchJob_windows bi ts j' w'
      | (False, j', w') \<Rightarrow> [])"

fun DualApiSequentialJob_windows ::
  "'f builtins \<Rightarrow> real list \<Rightarrow> 'f DualApiSequentialJob \<Rightarrow> 'f world \<Rightarrow> (int \<times> int) list" where
  "DualApiSequentialJob_windows bi [] j w = []"
| "DualApiSequentialJob_windows bi (now # ts) j w =
     window_of_turn j @
     (case DualApiSequentialJob_loop_turn bi now j w of
        (True, j', w') \<Rightarrow> DualApiSequentialJob_windows bi ts j' w'
      | (False, j', w') \<Rightarrow> [])"

section \<open>Responses of the declared shape\<close>

text \<open>
  The source declares \<^verbatim>\<open>data_list: List[Dict[str, Any]]\<close> and
  \<^verbatim>\<open>canonical_platform_name(name: str)\<close>. \<open>resp_ok\<close> holds of a response whose item
  records have that shape: each is a dictionary, what it holds as its name is a string,
  and, unless that name is blank, what it holds as its platforms is a list of dictionaries
  (or one dictionary) and what each of those holds as its platform name is a string.
  Values under any other key are free.
\<close>

definition plat_ok :: "'f builtins \<Rightarrow> 'f json \<Rightarrow> bool" where
  "plat_ok bi p =
     (case p of
        JDict d \<Rightarrow> (case plat_name_raw bi d of JStr raw \<Rightarrow> True | _ \<Rightarrow> False)
      | _ \<Rightarrow> False)"

definition item_ok :: "'f builtins \<Rightarrow> 'f json \<Rightarrow> bool" where
  "item_ok bi it =
     (case it of
        JDict d \<Rightarrow>
          (case mhn_raw bi d of
             JStr s \<Rightarrow>
               py_strip s = [] \<or>
               (case plats bi d of JList ps \<Rightarrow> list_all (plat_ok bi) ps | _ \<Rightarrow> False)
           | _ \<Rightarrow> False)
      | _ \<Rightarrow> False)"

definition resp_ok :: "'f builtins \<Rightarrow> 'f json \<Rightarrow> bool" where
  "resp_ok bi resp = list_all (item_ok bi) (data_list_of resp)"

text \<open>
  The uniqueness constraints of \<^verbatim>\<open>db.py\<close>: \<^verbatim>\<open>market_hash_name\<close> is unique in
  \<^verbatim>\<open>items\<close>, and \<^verbatim>\<open>UniqueConstraint("item_id", "name")\<close> holds in \<^verbatim>\<open>platforms\<close>.
\<close>

definition store_ok :: "'f world \<Rightarrow> bool" where
  "store_ok w =
     (distinct (map Item_market_hash_name (items w)) \<and>
      distinct (map (\<lambda>r. (Platform_item_id r, Platform_name r)) (platforms w)))"

section \<open>An instance for the examples\<close>

text \<open>
  The closed examples below need the built-ins at a concrete type. This instance takes
  the reals for the floats and is right for the values the examples hold: integers small
  enough to be floats exactly, and no string that is read as a number.
\<close>

definition example_builtins :: "real builtins" where
  "example_builtins =
     \<lparr> float_of_int = (\<lambda>n. Some (real_of_int n)),
       float_of_str = (\<lambda>s. None),
       int_of_float = (\<lambda>f. Some (if f < 0 then - \<lfloor>- f\<rfloor> else \<lfloor>f\<rfloor>)),
       int_of_str = (\<lambda>s. None),
       float_truthy = (\<lambda>f. f \<noteq> 0),
       str_of = (\<lambda>v. case v of JStr s \<Rightarrow> s | _ \<Rightarrow> []),
       strftime_beijing = (\<lambda>ms. None) \<rparr>"

definition example_client :: "real client" where
  "example_client = \<lparr> api_key = Some ''k'', respond = (\<lambda>k names. Inr (JList [])) \<rparr>"

definition failing_client :: "real client" where
  "failing_client =
     \<lparr> api_key = Some ''k'', respond = (\<lambda>k names. Inl (RequestError ''timeout'')) \<rparr>"

definition example_world :: "Item list \<Rightarrow> real world" where
  "example_world its =
     \<lparr> items = its, platforms = [], prices = [], api_calls = [],
       commit_error = (\<lambda>k rows. None) \<rparr>"


definition example_items :: "Item list" where
  "example_items =
     [\<lparr>Item_id = 1, Item_market_hash_name = ''AK-47''\<rparr>,
      \<lparr>Item_id = 2, Item_market_hash_name = ''AWP''\<rparr>,
      \<lparr>Item_id = 3, Item_market_hash_name = ''M4A4''\<rparr>,
      \<lparr>Item_id = 4, Item_market_hash_name = ''USP-S''\<rparr>,
      \<lparr>Item_id = 5, Item_market_hash_name = ''Glock-18''\<rparr>]"

definition example_response :: "real json" where
  "example_response =
     JDict [(''data'',
       JList [JDict [(''marketHashName'', JStr ''AK-47''),
                     (''dataList'',
                      JList [JDict [(''platform'', JStr ''c5''),
                                    (''sellPrice'', JInt 12),
                                    (''updateTime'', JInt 1700000000)]])]])]"

definition pricing_client :: "real client" where
  "pricing_client = \<lparr> api_key = Some ''k'', respond = (\<lambda>k names. Inr example_response) \<rparr>"


definition pricing_job :: "real PriceBatchJob" where
  "pricing_job =
     snd (PriceBatchJob_start (example_world example_items) None (Some 2) None
            (PriceBatchJob_init pricing_client 100 60))"

definition gap_items :: "Item list" where
  "gap_items = [\<lparr>Item_id = 7, Item_market_hash_name = ''AK-47''\<rparr>]"

definition gap_job :: "real PriceBatchJob" where
  "gap_job =
     snd (PriceBatchJob_start (example_world gap_items) None (Some 5) None
            (PriceBatchJob_init pricing_client 100 60))"

definition gap_dual_job :: "real DualApiSequentialJob" where
  "gap_dual_job =
     snd (DualApiSequentialJob_start (example_world gap_items) None (Some 5) None
            (DualApiSequentialJob_init (Some pricing_client) (Some pricing_client) 100 30))"

definition failing_dual_job :: "real DualApiSequentialJob" where
  "failing_dual_job =
     snd (DualApiSequentialJob_start (example_world example_items) None (Some 2) None
            (DualApiSequentialJob_init (Some failing_client) (Some pricing_client) 100 30))"

definition failing_job :: "real PriceBatchJob" where
  "failing_job =
     snd (PriceBatchJob_start (example_world example_items) None (Some 2) None
            (PriceBatchJob_init failing_client 100 60))"

definition dual_pricing_job :: "real DualApiSequentialJob" where
  "dual_pricing_job =
     snd (DualApiSequentialJob_start (example_world example_items) None (Some 2) None
            (DualApiSequentialJob_init (Some pricing_client) (Some pricing_client) 100 30))"

section \<open>Platform-name canonicalisation\<close>













section \<open>Field extraction\<close>

lemma platform_row_update_time:
  "platform_row bi w mhn iid (JDict p) = Inr row \<Longrightarrow> update_time row = ut_int bi p"
  unfolding platform_row_def Let_def
  by (auto split: json.splits sum.splits)

text \<open>
  Claim C6. The integer \<open>n\<close> extracted as the update time of a platform entry is stored
  as \<open>n * 1000\<close> when it is below \<open>10^12\<close> and as \<open>n\<close> when it is not; when the two keys
  are missing or the value cannot be made an integer, nothing is stored. So 1700000000
  becomes 1700000000000, and 1700000000000 stays.
\<close>

theorem update_time_normalised:
  "(to_int bi (ut bi p) = Some n \<and> n < 1000000000000 \<longrightarrow> ut_int bi p = Some (n * 1000))
   \<and> (to_int bi (ut bi p) = Some n \<and> 1000000000000 \<le> n \<longrightarrow> ut_int bi p = Some n)
   \<and> (to_int bi (ut bi p) = None \<longrightarrow> ut_int bi p = None)
   \<and> (map_of p ''update_time'' = None \<and> map_of p ''updateTime'' = None \<longrightarrow> ut_int bi p = None)
   \<and> (platform_row bi w mhn iid (JDict p) = Inr row \<longrightarrow> update_time row = ut_int bi p)
   \<and> ut_int bi [(''update_time'', JInt 1700000000)] = Some 1700000000000
   \<and> ut_int bi [(''update_time'', JInt 1700000000000)] = Some 1700000000000"
proof -
  have a: "to_int bi (ut bi p) = Some n \<Longrightarrow> n < 1000000000000 \<Longrightarrow> ut_int bi p = Some (n * 1000)"
    unfolding ut_int_def Let_def by (cases "ut bi p") auto
  have b: "to_int bi (ut bi p) = Some n \<Longrightarrow> 1000000000000 \<le> n \<Longrightarrow> ut_int bi p = Some n"
    unfolding ut_int_def Let_def by (cases "ut bi p") auto
  have c: "to_int bi (ut bi p) = None \<Longrightarrow> ut_int bi p = None"
    unfolding ut_int_def Let_def by simp
  have d: "map_of p ''update_time'' = None \<Longrightarrow> map_of p ''updateTime'' = None \<Longrightarrow> ut_int bi p = None"
    unfolding ut_int_def ut_def py_or_def dict_get_def Let_def by simp
  have e: "ut_int bi [(''update_time'', JInt 1700000000)] = Some 1700000000000"
    unfolding ut_int_def ut_def py_or_def dict_get_def Let_def by simp
  have f: "ut_int bi [(''update_time'', JInt 1700000000000)] = Some 1700000000000"
    unfolding ut_int_def ut_def py_or_def dict_get_def Let_def by simp
  from a b c d e f platform_row_update_time [of bi w mhn iid p row] show ?thesis by blast
qed

theorem update_time_normalised_witness:
  "ut_int example_builtins [(''update_time'', JInt 0), (''updateTime'', JInt 1700000000)]
     = Some 1700000000000"
  using update_time_normalised [of example_builtins
      "[(''update_time'', JInt 0), (''updateTime'', JInt 1700000000)]" 1700000000]
  by (simp add: ut_def py_or_def dict_get_def)

text \<open>
  Claim C10, as amended. A numeric field is read from the first of its keys whose value is
  truthy, and from the last key of the chain when none is: a zero (or an empty string)
  under an earlier key gives way to a later key, so \<open>sell_price = 0\<close> with \<open>price = 5\<close>
  gives \<open>float(5)\<close>; a zero under an earlier key with no other key present is stored as
  absent; a zero under the last key of the chain is stored as \<open>float(0)\<close>.
\<close>

theorem numeric_field_selection:
  "sell bi p =
     to_float bi
       (if truthy bi (dict_get p ''sell_price'') then dict_get p ''sell_price''
        else if truthy bi (dict_get p ''sellPrice'') then dict_get p ''sellPrice''
        else if truthy bi (dict_get p ''sell'') then dict_get p ''sell''
        else dict_get p ''price'')
   \<and> buy bi p =
     to_float bi
       (if truthy bi (dict_get p ''bidding_price'') then dict_get p ''bidding_price''
        else if truthy bi (dict_get p ''biddingPrice'') then dict_get p ''biddingPrice''
        else if truthy bi (dict_get p ''buy'') then dict_get p ''buy''
        else dict_get p ''buy_price'')
   \<and> sell_count_of bi p =
     to_int bi
       (if truthy bi (dict_get p ''sell_count'') then dict_get p ''sell_count''
        else dict_get p ''sellCount'')
   \<and> bidding_count_of bi p =
     to_int bi
       (if truthy bi (dict_get p ''bidding_count'') then dict_get p ''bidding_count''
        else dict_get p ''biddingCount'')
   \<and> sell bi [(''sell_price'', JInt 0), (''price'', JInt 5)] = float_of_int bi 5
   \<and> sell bi [(''sell_price'', JStr []), (''price'', JInt 5)] = float_of_int bi 5
   \<and> sell bi [(''sell_price'', JInt 0)] = None
   \<and> sell bi [(''price'', JInt 0)] = float_of_int bi 0"
  unfolding sell_def buy_def sell_count_of_def bidding_count_of_def py_or_def dict_get_def
  by simp

theorem numeric_field_selection_witness:
  "sell example_builtins [(''sell_price'', JInt 0), (''price'', JInt 5)] = Some 5
   \<and> sell example_builtins [(''sell_price'', JInt 0)] = None"
  using numeric_field_selection [of example_builtins "[]"]
  by (simp add: example_builtins_def)

text \<open>
  The claim as it was stated: a zero price with no other price key present is stored as
  absent. Under the key \<open>price\<close> it is stored as zero.
\<close>

theorem zero_price_counterexample:
  "sell example_builtins [(''price'', JInt 0)] = Some 0"
  unfolding sell_def py_or_def dict_get_def example_builtins_def by simp

section \<open>Control operations\<close>

lemma key_messages_differ:
  "not_configured @ '' STEAMDT_API_KEY_1'' \<noteq> not_configured @ '' STEAMDT_API_KEY_2''"
  by simp

text \<open>
  Claim C7. When the dual job is idle and one of its two clients is missing or has no key,
  \<open>start\<close> returns the error object, with the message of the first credential that is
  missing, and the two messages differ; whenever a credential is missing, \<open>start\<close> leaves
  every field of the job as it was, so no thread is started and the job stays idle.
\<close>

theorem dual_start_missing_credential:
  assumes "\<not> client_ok (client1 j) \<or> \<not> client_ok (client2 j)"
  shows "snd (DualApiSequentialJob_start w start_id bs iv j) = j
    \<and> (\<not> running j \<longrightarrow>
         fst (DualApiSequentialJob_start w start_id bs iv j) =
           StartError False False
             (if \<not> client_ok (client1 j) then not_configured @ '' STEAMDT_API_KEY_1''
              else not_configured @ '' STEAMDT_API_KEY_2''))
    \<and> not_configured @ '' STEAMDT_API_KEY_1'' \<noteq> not_configured @ '' STEAMDT_API_KEY_2''"
  using assms key_messages_differ
  unfolding DualApiSequentialJob_start_def by auto

theorem dual_start_missing_credential_witness:
  "snd (DualApiSequentialJob_start (example_world []) None None None
          (DualApiSequentialJob_init (Some example_client) None 100 30))
     = DualApiSequentialJob_init (Some example_client) None 100 30
   \<and> fst (DualApiSequentialJob_start (example_world []) None None None
          (DualApiSequentialJob_init (Some example_client) None 100 30))
     = StartError False False (not_configured @ '' STEAMDT_API_KEY_2'')"
  using dual_start_missing_credential [of "DualApiSequentialJob_init (Some example_client) None 100 30"
      "example_world []" None None None]
  by (simp add: client_ok_def has_key_def example_client_def DualApiSequentialJob_init_def)






section \<open>Failures of a window\<close>








lemma pricing_job_fields:
  "current_start_id pricing_job = 1" "max_id pricing_job = 5" "batch_size pricing_job = 2"
  "client pricing_job = pricing_client" "completed_count pricing_job = 0"
  "\<not> stop_event pricing_job" "\<not> paused pricing_job" "last_processed_range pricing_job = None"
  by (simp_all add: pricing_job_def PriceBatchJob_start_def PriceBatchJob_init_def
        start_fields_def or_default_def Let_def max_item_id_def example_items_def example_world_def)



section \<open>Windows without names\<close>

lemma single_no_names_advances:
  assumes "0 < fst (next_window j)" "fst (next_window j) \<le> snd (next_window j)"
    and "items_in_range w (fst (next_window j)) (snd (next_window j)) \<noteq> []"
    and "names_of (items_in_range w (fst (next_window j)) (snd (next_window j))) = []"
  shows "PriceBatchJob_run_one_range bi j w =
           (Inr (), advance (fst (next_window j)) (snd (next_window j)) j, w)"
  using assms unfolding PriceBatchJob_run_one_range_def Let_def by simp

lemma dual_no_names_advances:
  assumes "0 < fst (next_window j)" "fst (next_window j) \<le> snd (next_window j)"
    and "names_of (items_in_range w (fst (next_window j)) (snd (next_window j))) = []"
  shows "DualApiSequentialJob_run_one_range bi j w =
           (Inr (), advance (fst (next_window j)) (snd (next_window j)) j, w)"
  using assms unfolding DualApiSequentialJob_run_one_range_def Let_def by simp

lemma single_no_items_stays:
  assumes "items_in_range w (fst (next_window j)) (snd (next_window j)) = []"
  shows "PriceBatchJob_run_one_range bi j w = (Inr (), j, w)"
  using assms unfolding PriceBatchJob_run_one_range_def Let_def by simp

lemma gap_job_fields:
  "current_start_id gap_job = 1" "max_id gap_job = 7" "batch_size gap_job = 5"
  "completed_count gap_job = 0" "\<not> stop_event gap_job" "\<not> paused gap_job"
  "last_processed_range gap_job = None" "interval_sec gap_job = 60"
  by (simp_all add: gap_job_def PriceBatchJob_start_def PriceBatchJob_init_def
        start_fields_def or_default_def Let_def max_item_id_def gap_items_def example_world_def)

lemma gap_dual_job_fields:
  "current_start_id gap_dual_job = 1" "max_id gap_dual_job = 7" "batch_size gap_dual_job = 5"
  "completed_count gap_dual_job = 0" "last_processed_range gap_dual_job = None"
  by (simp_all add: gap_dual_job_def DualApiSequentialJob_start_def DualApiSequentialJob_init_def
        start_fields_def or_default_def Let_def max_item_id_def gap_items_def example_world_def
        client_ok_def has_key_def pricing_client_def)

lemma gap_window_empty: "items_in_range (example_world gap_items) 1 5 = []"
  by (simp add: items_in_range_def example_world_def gap_items_def)

text \<open>
  Claim C1 at a catalog with a gap: the only entry has id 7 and the window is 1 to 5.
  The single job returns with its cursor still at 1, nothing recorded, and its loop does
  not end; the dual job, at the same input, moves its cursor to 6, sets the completed
  count to 5 and records the window, without a call or a row.
\<close>

theorem empty_window_single_job_stays:
  "next_window gap_job = (1, 5)
   \<and> items_in_range (example_world gap_items) 1 5 = []
   \<and> PriceBatchJob_run_one_range example_builtins gap_job (example_world gap_items)
       = (Inr (), gap_job, example_world gap_items)
   \<and> current_start_id gap_job = 1
   \<and> completed_count gap_job = 0
   \<and> last_processed_range gap_job = None
   \<and> PriceBatchJob_loop example_builtins [0, 60, 120, 180] gap_job (example_world gap_items) = None
   \<and> DualApiSequentialJob_run_one_range example_builtins gap_dual_job (example_world gap_items)
       = (Inr (), advance 1 5 gap_dual_job, example_world gap_items)
   \<and> current_start_id (advance 1 5 gap_dual_job) = 6
   \<and> completed_count (advance 1 5 gap_dual_job) = 5
   \<and> last_processed_range (advance 1 5 gap_dual_job) = Some (1, 5)"
proof -
  have nw: "next_window gap_job = (1, 5)" "next_window gap_dual_job = (1, 5)"
    by (simp_all add: next_window_def gap_job_fields gap_dual_job_fields)
  have run: "PriceBatchJob_run_one_range example_builtins j (example_world gap_items)
       = (Inr (), j, example_world gap_items)" if "next_window j = (1, 5)" for j
    using that gap_window_empty by (simp add: single_no_items_stays)
  have turn: "PriceBatchJob_loop_turn example_builtins now gap_job (example_world gap_items)
       = (True, gap_job\<lparr>next_run_ts := Some (now + 60)\<rparr>, example_world gap_items)" for now
    unfolding PriceBatchJob_loop_turn_def using run [OF nw(1)]
    by (simp add: gap_job_fields Let_def)
  have turn': "PriceBatchJob_loop_turn example_builtins now (gap_job\<lparr>next_run_ts := t\<rparr>)
         (example_world gap_items)
       = (True, gap_job\<lparr>next_run_ts := Some (now + 60)\<rparr>, example_world gap_items)" for now t
    unfolding PriceBatchJob_loop_turn_def
    using run [of "gap_job\<lparr>next_run_ts := t\<rparr>"] nw(1)
    by (simp add: gap_job_fields Let_def next_window_def)
  have loop: "PriceBatchJob_loop example_builtins [0, 60, 120, 180] gap_job
      (example_world gap_items) = None"
    by (simp add: turn turn')
  have dual: "DualApiSequentialJob_run_one_range example_builtins gap_dual_job
      (example_world gap_items) = (Inr (), advance 1 5 gap_dual_job, example_world gap_items)"
    unfolding DualApiSequentialJob_run_one_range_def using nw(2) gap_window_empty
    by (simp add: Let_def)
  show ?thesis
    using nw(1) gap_window_empty run [OF nw(1)] loop dual
    by (simp add: gap_job_fields advance_def)
qed

section \<open>Credential alternation\<close>

lemma dual_pointer:
  assumes "DualApiSequentialJob_run_one_range bi j w = (r, j', w')"
  shows "(case r of
            Inl e \<Rightarrow> next_client_id j' = next_client_id j
          | Inr u \<Rightarrow>
              if api_calls w' = api_calls w then next_client_id j' = next_client_id j
              else next_client_id j' = (if next_client_id j = 1 then 2 else 1))"
  using assms unfolding DualApiSequentialJob_run_one_range_def Let_def write_window_def advance_def
  by (auto split: if_splits sum.splits option.splits)

lemma dual_call:
  assumes "DualApiSequentialJob_run_one_range bi j w = (r, j', w')"
  shows "api_calls w' = api_calls w \<or>
         api_calls w' = api_calls w @
           [(if next_client_id j = 1 then Client1 else Client2,
             names_of (items_in_range w (fst (next_window j)) (snd (next_window j))))]"
  using assms unfolding DualApiSequentialJob_run_one_range_def Let_def write_window_def
  by (auto split: if_splits sum.splits option.splits)

lemma dual_turn_pointer:
  assumes "DualApiSequentialJob_run_one_range bi j w = (r, j', w')"
    and "\<not> stop_event j" "\<not> paused j"
  shows "next_client_id (fst (snd (DualApiSequentialJob_loop_turn bi now j w))) = next_client_id j'
    \<and> last_error (fst (snd (DualApiSequentialJob_loop_turn bi now j w)))
        = (case r of Inl e \<Rightarrow> Some e | Inr u \<Rightarrow> None)"
  using assms unfolding DualApiSequentialJob_loop_turn_def
  by (simp add: Let_def stop_def)

text \<open>
  Claim C2, as amended. In the dual job the client pointer changes with the cursor, when a
  window has been fetched and written: such a window is fetched with the client the
  pointer names and flips the pointer. A window that raises leaves the pointer as it was,
  and so does a window that makes no call; the loop records the exception and changes the
  pointer no further, so the window is tried again with the same client.
\<close>

theorem alternation_follows_success:
  assumes "DualApiSequentialJob_run_one_range bi j w = (r, j', w')"
  shows "(case r of
            Inl e \<Rightarrow> next_client_id j' = next_client_id j
          | Inr u \<Rightarrow>
              if api_calls w' = api_calls w then next_client_id j' = next_client_id j
              else next_client_id j' = (if next_client_id j = 1 then 2 else 1))
    \<and> (api_calls w' = api_calls w \<or>
        api_calls w' = api_calls w @
          [(if next_client_id j = 1 then Client1 else Client2,
            names_of (items_in_range w (fst (next_window j)) (snd (next_window j))))])
    \<and> (if stop_event j \<or> paused j
        then next_client_id (fst (snd (DualApiSequentialJob_loop_turn bi now j w)))
               = next_client_id j
        else next_client_id (fst (snd (DualApiSequentialJob_loop_turn bi now j w)))
               = next_client_id j'
             \<and> last_error (fst (snd (DualApiSequentialJob_loop_turn bi now j w)))
               = (case r of Inl e \<Rightarrow> Some e | Inr u \<Rightarrow> None))"
proof -
  have idle: "stop_event j \<or> paused j \<Longrightarrow>
      next_client_id (fst (snd (DualApiSequentialJob_loop_turn bi now j w))) = next_client_id j"
    unfolding DualApiSequentialJob_loop_turn_def by auto
  show ?thesis
    using dual_pointer [OF assms] dual_call [OF assms] dual_turn_pointer [OF assms, of now] idle
    by (simp split: if_splits)
qed

lemma failing_dual_job_fields:
  "current_start_id failing_dual_job = 1" "max_id failing_dual_job = 5"
  "batch_size failing_dual_job = 2" "completed_count failing_dual_job = 0"
  "next_client_id failing_dual_job = 1" "client1 failing_dual_job = Some failing_client"
  "client2 failing_dual_job = Some pricing_client"
  "\<not> stop_event failing_dual_job" "\<not> paused failing_dual_job"
  "interval_sec failing_dual_job = 30"
  by (simp_all add: failing_dual_job_def DualApiSequentialJob_start_def
        DualApiSequentialJob_init_def start_fields_def or_default_def Let_def max_item_id_def
        example_items_def example_world_def client_ok_def has_key_def pricing_client_def
        failing_client_def)

lemma example_window_names:
  "items w = example_items \<Longrightarrow> names_of (items_in_range w 1 2) = [''AK-47'', ''AWP'']"
  by (simp add: names_of_def items_in_range_def example_items_def)

lemma failing_run:
  assumes "items w = example_items"
  shows "DualApiSequentialJob_run_one_range example_builtins (failing_dual_job\<lparr>last_error := le, next_run_ts := t\<rparr>) w =
     (Inl (RequestError ''timeout''), failing_dual_job\<lparr>last_error := le, next_run_ts := t\<rparr>,
      w\<lparr>api_calls := api_calls w @ [(Client1, [''AK-47'', ''AWP''])]\<rparr>)"
proof -
  have n: "names_of (items_in_range w 1 2) = [''AK-47'', ''AWP'']"
    using assms by (rule example_window_names)
  then have i: "items_in_range w 1 2 \<noteq> []" unfolding names_of_def by auto
  show ?thesis
    unfolding DualApiSequentialJob_run_one_range_def
    using n i
    by (simp add: Let_def next_window_def failing_dual_job_fields get_price_batch_def
          has_key_def failing_client_def)
qed

text \<open>
  The claim as it was stated: after a window that raised with client 1, the next window
  runs with client 2. With a first client whose requests time out, the first turn calls
  client 1, records the error and leaves the pointer at 1, and the second turn calls
  client 1 again.
\<close>

theorem failed_window_keeps_client_counterexample:
  "next_client_id (fst (DualApiSequentialJob_after example_builtins [0]
       failing_dual_job (example_world example_items))) = 1
   \<and> last_error (fst (DualApiSequentialJob_after example_builtins [0]
       failing_dual_job (example_world example_items))) = Some (RequestError ''timeout'')
   \<and> api_calls (snd (DualApiSequentialJob_after example_builtins [0, 30]
       failing_dual_job (example_world example_items)))
     = [(Client1, [''AK-47'', ''AWP'']), (Client1, [''AK-47'', ''AWP''])]"
proof -
  have t: "DualApiSequentialJob_loop_turn example_builtins now
             (failing_dual_job\<lparr>last_error := le, next_run_ts := t\<rparr>) w
           = (True,
              failing_dual_job\<lparr>last_error := Some (RequestError ''timeout''),
                                next_run_ts := Some (now + 30)\<rparr>,
              w\<lparr>api_calls := api_calls w @ [(Client1, [''AK-47'', ''AWP''])]\<rparr>)"
    if "items w = example_items" for now le t w
    unfolding DualApiSequentialJob_loop_turn_def
    using failing_run [OF that, where le = le and t = t]
    by (simp add: Let_def failing_dual_job_fields)
  have j0: "failing_dual_job
            = failing_dual_job\<lparr>last_error := last_error failing_dual_job,
                               next_run_ts := next_run_ts failing_dual_job\<rparr>"
    by simp
  have i0: "items (example_world example_items) = example_items"
    by (simp add: example_world_def)
  have t0: "DualApiSequentialJob_loop_turn example_builtins now failing_dual_job
              (example_world example_items)
           = (True,
              failing_dual_job\<lparr>last_error := Some (RequestError ''timeout''),
                                next_run_ts := Some (now + 30)\<rparr>,
              (example_world example_items)\<lparr>api_calls := [(Client1, [''AK-47'', ''AWP''])]\<rparr>)"
    for now
    using t [OF i0, where now = now and le = "last_error failing_dual_job"
        and t = "next_run_ts failing_dual_job"]
    by (simp add: example_world_def)
  show ?thesis
    by (simp add: t0 t i0 failing_dual_job_fields)
qed

theorem alternation_follows_success_witness:
  "fst (DualApiSequentialJob_run_one_range example_builtins
          (failing_dual_job\<lparr>last_error := None, next_run_ts := None\<rparr>)
          (example_world example_items))
     = Inl (RequestError ''timeout'')
   \<and> next_client_id (fst (snd (DualApiSequentialJob_run_one_range example_builtins
          (failing_dual_job\<lparr>last_error := None, next_run_ts := None\<rparr>)
          (example_world example_items))))
     = next_client_id failing_dual_job"
  using alternation_follows_success [OF failing_run [where w = "example_world example_items"
        and le = None and t = None], where now = 0]
    failing_run [where w = "example_world example_items" and le = None and t = None]
  by (simp add: example_world_def failing_dual_job_fields)

section \<open>Normalising a response of the declared shape\<close>

lemma filter_key_distinct:
  "distinct (map f xs) \<Longrightarrow> length (filter (\<lambda>x. f x = v) xs) \<le> 1"
proof (induction xs)
  case Nil
  then show ?case by simp
next
  case (Cons x xs)
  show ?case
  proof (cases "f x = v")
    case True
    with Cons.prems have "v \<notin> f ` set xs" by auto
    then have "filter (\<lambda>y. f y = v) xs = []"
      by (auto simp: filter_empty_conv)
    with True show ?thesis by simp
  next
    case False
    with Cons show ?thesis by simp
  qed
qed

lemma one_or_none_short: "length xs \<le> 1 \<Longrightarrow> \<exists>r. one_or_none xs = Inr r"
  by (cases xs rule: one_or_none.cases) auto

lemma item_id_val_ok:
  assumes "store_ok w"
  shows "\<exists>r. item_id_val w mhn = Inr r"
proof -
  have "length (filter (\<lambda>r. Item_market_hash_name r = mhn) (items w)) \<le> 1"
    using assms filter_key_distinct [of Item_market_hash_name "items w" mhn]
    unfolding store_ok_def by blast
  then obtain r where "one_or_none (filter (\<lambda>r. Item_market_hash_name r = mhn) (items w)) = Inr r"
    using one_or_none_short by blast
  then show ?thesis unfolding item_id_val_def by simp
qed

lemma plat_id_val_ok:
  assumes "store_ok w"
  shows "\<exists>r. plat_id_val w iid plat_name = Inr r"
proof -
  have eq: "(\<lambda>r. Platform_item_id r = i \<and> Platform_name r = plat_name)
          = (\<lambda>r. (Platform_item_id r, Platform_name r) = (i, plat_name))" for i
    by auto
  have "length (filter (\<lambda>r. Platform_item_id r = i \<and> Platform_name r = plat_name) (platforms w)) \<le> 1"
    for i
    unfolding eq
    using assms filter_key_distinct [of "\<lambda>r. (Platform_item_id r, Platform_name r)"
        "platforms w" "(i, plat_name)"]
    unfolding store_ok_def by blast
  then have ok: "\<exists>r. one_or_none
      (filter (\<lambda>r. Platform_item_id r = i \<and> Platform_name r = plat_name) (platforms w)) = Inr r"
    for i
    using one_or_none_short by blast
  show ?thesis
  proof (cases iid)
    case None
    then show ?thesis unfolding plat_id_val_def by simp
  next
    case (Some i)
    obtain r where "one_or_none
      (filter (\<lambda>r. Platform_item_id r = i \<and> Platform_name r = plat_name) (platforms w)) = Inr r"
      using ok by blast
    with Some show ?thesis unfolding plat_id_val_def by simp
  qed
qed

lemma platform_row_ok:
  assumes "plat_ok bi p" "store_ok w"
  shows "\<exists>row. platform_row bi w mhn iid p = Inr row"
proof -
  from assms(1) obtain d raw where p: "p = JDict d" and raw: "plat_name_raw bi d = JStr raw"
    unfolding plat_ok_def by (auto split: json.splits)
  obtain pl where "plat_id_val w iid (canonical_platform_name raw) = Inr pl"
    using plat_id_val_ok [OF assms(2)] by blast
  then show ?thesis
    unfolding platform_row_def using p raw by (simp add: Let_def)
qed

lemma plat_rows_ok:
  assumes "list_all (plat_ok bi) ps" "store_ok w"
  shows "\<exists>rows. plat_rows bi w mhn iid ps = Inr rows"
  using assms(1)
proof (induction ps)
  case Nil
  then show ?case by simp
next
  case (Cons p ps)
  then obtain row rows where "platform_row bi w mhn iid p = Inr row"
    and "plat_rows bi w mhn iid ps = Inr rows"
    using platform_row_ok [OF _ assms(2)] by fastforce
  then show ?case by simp
qed

lemma item_rows_ok:
  assumes "item_ok bi it" "store_ok w"
  shows "\<exists>rows. item_rows bi w it = Inr rows"
proof -
  from assms(1) obtain d s where it: "it = JDict d" and s: "mhn_raw bi d = JStr s"
    and sh: "py_strip s = [] \<or> (\<exists>ps. plats bi d = JList ps \<and> list_all (plat_ok bi) ps)"
    unfolding item_ok_def by (auto split: json.splits)
  show ?thesis
  proof (cases "py_strip s = []")
    case True
    then show ?thesis unfolding item_rows_def using it s by (simp add: Let_def)
  next
    case False
    with sh obtain ps where ps: "plats bi d = JList ps" "list_all (plat_ok bi) ps" by blast
    obtain iid where iid: "item_id_val w (py_strip s) = Inr iid"
      using item_id_val_ok [OF assms(2)] by blast
    obtain rows where "plat_rows bi w (py_strip s) iid ps = Inr rows"
      using plat_rows_ok [OF ps(2) assms(2)] by blast
    then show ?thesis
      unfolding item_rows_def using it s False ps(1) iid by (simp add: Let_def)
  qed
qed

lemma window_rows_ok:
  assumes "list_all (item_ok bi) its" "store_ok w"
  shows "\<exists>rows. window_rows bi w its = Inr rows"
  using assms(1)
proof (induction its)
  case Nil
  then show ?case by simp
next
  case (Cons it its)
  then obtain rows rest where "item_rows bi w it = Inr rows"
    and "window_rows bi w its = Inr rest"
    using item_rows_ok [OF _ assms(2)] by fastforce
  then show ?case by simp
qed

lemma data_list_of_cases:
  "data_list_of JNone = []" "data_list_of (JBool b) = []" "data_list_of (JInt n) = []"
  "data_list_of (JFloat f) = []" "data_list_of (JStr s) = []"
  "data_list_of (JDict []) = []" "data_list_of (JDict [(''data'', JStr s)]) = []"
  "data_list_of (JList xs) = xs"
  unfolding data_list_of_def dict_get_def by simp_all

text \<open>
  Claim C3, as amended. For a response whose item records have the declared shape
  (\<open>resp_ok\<close>) and a store that keeps its uniqueness constraints, normalising the
  response returns a list of price rows and raises nothing, whatever the other values
  are: a response that is neither a dictionary nor a list, or whose containers are not
  lists, gives no records; a missing key or a value that is not a number gives an absent
  field; and with a commit that succeeds the rows are appended to the table.
\<close>

theorem normalisation_total_on_declared_shape:
  assumes "resp_ok bi resp" "store_ok w"
  shows "(\<exists>rows. window_rows bi w (data_list_of resp) = Inr rows
            \<and> (commit_error w (length (api_calls w)) rows = None \<longrightarrow>
                 write_window bi w resp = Inr (w\<lparr>prices := prices w @ rows\<rparr>)))
    \<and> data_list_of (JNone :: 'a json) = []
    \<and> data_list_of (JStr s :: 'a json) = []
    \<and> data_list_of (JInt n :: 'a json) = []
    \<and> data_list_of (JDict [(''data'', JStr s)] :: 'a json) = []
    \<and> to_float bi JNone = None \<and> to_float bi (JList xs) = None \<and> to_float bi (JDict d) = None
    \<and> to_int bi JNone = None \<and> to_int bi (JList xs) = None \<and> to_int bi (JDict d) = None"
proof -
  obtain rows where r: "window_rows bi w (data_list_of resp) = Inr rows"
    using window_rows_ok [of bi "data_list_of resp" w] assms unfolding resp_ok_def by blast
  then have "commit_error w (length (api_calls w)) rows = None \<longrightarrow>
        write_window bi w resp = Inr (w\<lparr>prices := prices w @ rows\<rparr>)"
    unfolding write_window_def by simp
  with r show ?thesis by (simp add: data_list_of_cases)
qed

lemma example_resp_ok: "resp_ok example_builtins example_response"
  by code_simp

lemma example_store_ok: "store_ok (example_world example_items)"
  by code_simp

theorem normalisation_total_on_declared_shape_witness:
  "resp_ok example_builtins example_response
   \<and> store_ok (example_world example_items)
   \<and> (\<exists>rows. write_window example_builtins (example_world example_items) example_response
               = Inr ((example_world example_items)\<lparr>prices := rows\<rparr>))"
  using normalisation_total_on_declared_shape [OF example_resp_ok example_store_ok]
    example_resp_ok example_store_ok
  by (auto simp: example_world_def)

text \<open>
  The claim as it was stated, for every response: an item record that is a number has no
  \<open>get\<close>, and a name that is a number has no \<open>strip\<close>; both raise, and the write fails.
\<close>

theorem malformed_response_raises_counterexample:
  "window_rows example_builtins (example_world example_items) (data_list_of (JList [JInt 5]))
     = Inl AttributeError
   \<and> write_window example_builtins (example_world example_items) (JList [JInt 5])
     = Inl AttributeError
   \<and> write_window example_builtins (example_world example_items)
       (JDict [(''data'', JList [JDict [(''marketHashName'', JInt 5)]])])
     = Inl AttributeError
   \<and> write_window example_builtins (example_world example_items)
       (JList [JDict [(''marketHashName'', JStr ''AK-47''), (''platforms'', JInt 3)]])
     = Inl TypeError"
proof -
  have a: "window_rows example_builtins (example_world example_items)
             (data_list_of (JList [JInt 5])) = Inl AttributeError"
    by code_simp
  have b: "window_rows example_builtins (example_world example_items)
             (data_list_of (JDict [(''data'', JList [JDict [(''marketHashName'', JInt 5)]])]))
           = Inl AttributeError"
    by code_simp
  have c: "window_rows example_builtins (example_world example_items)
             (data_list_of
                (JList [JDict [(''marketHashName'', JStr ''AK-47''), (''platforms'', JInt 3)]]))
           = Inl TypeError"
    by code_simp
  show ?thesis
    unfolding write_window_def a b c by simp
qed

section \<open>Windows of a run\<close>

lemma write_window_ok:
  assumes "resp_ok bi resp" "store_ok w" "\<And>k rows. commit_error w k rows = None"
  shows "\<exists>rows. write_window bi w resp = Inr (w\<lparr>prices := prices w @ rows\<rparr>)"
proof -
  obtain rows where "window_rows bi w (data_list_of resp) = Inr rows"
    using window_rows_ok [of bi "data_list_of resp" w] assms(1,2) unfolding resp_ok_def by blast
  then have "write_window bi w resp = Inr (w\<lparr>prices := prices w @ rows\<rparr>)"
    unfolding write_window_def using assms(3) by simp
  then show ?thesis by blast
qed

lemma single_run_ok:
  assumes s: "0 < current_start_id j" "current_start_id j \<le> max_id j"
    and b: "1 \<le> batch_size j"
    and key: "has_key (client j)"
    and resp: "\<And>k names. \<exists>resp. respond (client j) k names = Inr resp \<and> resp_ok bi resp"
    and store: "store_ok w"
    and commit: "\<And>k rows. commit_error w k rows = None"
    and nonempty: "items_in_range w (fst (next_window j)) (snd (next_window j)) \<noteq> []"
  shows "\<exists>w'. PriceBatchJob_run_one_range bi j w =
            (Inr (), advance (fst (next_window j)) (snd (next_window j)) j, w')
          \<and> items w' = items w \<and> platforms w' = platforms w
          \<and> commit_error w' = commit_error w"
proof -
  define st where "st = fst (next_window j)"
  define e where "e = snd (next_window j)"
  have st: "st = current_start_id j" and e: "e = min (max_id j) (st + batch_size j - 1)"
    unfolding st_def e_def next_window_def by simp_all
  have guard: "\<not> (st > e \<or> st \<le> 0)" using s b st e by auto
  have ne: "items_in_range w st e \<noteq> []"
    using nonempty unfolding st_def e_def .
  define names where "names = names_of (items_in_range w st e)"
  show ?thesis
  proof (cases "names = []")
    case True
    then have "PriceBatchJob_run_one_range bi j w = (Inr (), advance st e j, w)"
      unfolding PriceBatchJob_run_one_range_def Let_def
      using guard ne unfolding names_def st_def e_def by simp
    then show ?thesis unfolding st_def e_def by simp
  next
    case False
    define w1 where "w1 = w\<lparr>api_calls := api_calls w @ [(TheClient, names)]\<rparr>"
    obtain r where r: "respond (client j) (length (api_calls w)) names = Inr r" "resp_ok bi r"
      using resp by blast
    then have g: "get_price_batch (client j) (length (api_calls w)) names = Inr r"
      unfolding get_price_batch_def using key by simp
    have "store_ok w1" using store unfolding w1_def store_ok_def by simp
    moreover have "\<And>k rows. commit_error w1 k rows = None"
      using commit unfolding w1_def by simp
    ultimately obtain rows where ww: "write_window bi w1 r = Inr (w1\<lparr>prices := prices w1 @ rows\<rparr>)"
      using write_window_ok [OF r(2)] by blast
    have "PriceBatchJob_run_one_range bi j w =
            (Inr (), advance st e j, w1\<lparr>prices := prices w1 @ rows\<rparr>)"
      unfolding PriceBatchJob_run_one_range_def Let_def
      using guard ne False g ww unfolding names_def st_def e_def w1_def by simp
    then show ?thesis unfolding st_def e_def w1_def by simp
  qed
qed


lemma single_turn_ok:
  assumes s: "0 < current_start_id j" "current_start_id j \<le> max_id j"
    and b: "1 \<le> batch_size j"
    and run: "\<not> stop_event j" "\<not> paused j"
    and key: "has_key (client j)"
    and resp: "\<And>k names. \<exists>resp. respond (client j) k names = Inr resp \<and> resp_ok bi resp"
    and store: "store_ok w"
    and commit: "\<And>k rows. commit_error w k rows = None"
    and nonempty: "items_in_range w (fst (next_window j)) (snd (next_window j)) \<noteq> []"
  shows "\<exists>j' w'. PriceBatchJob_loop_turn bi now j w = (snd (next_window j) < max_id j, j', w')
          \<and> completed_count j' = snd (next_window j)
          \<and> current_start_id j' = snd (next_window j) + 1
          \<and> max_id j' = max_id j \<and> batch_size j' = batch_size j \<and> client j' = client j
          \<and> \<not> paused j'
          \<and> (if snd (next_window j) < max_id j then \<not> stop_event j' else \<not> running j')
          \<and> items w' = items w \<and> platforms w' = platforms w
          \<and> commit_error w' = commit_error w"
proof -
  obtain w' where r: "PriceBatchJob_run_one_range bi j w =
            (Inr (), advance (fst (next_window j)) (snd (next_window j)) j, w')"
    and w': "items w' = items w" "platforms w' = platforms w" "commit_error w' = commit_error w"
    using single_run_ok [OF s b key resp store commit nonempty] by blast
  have le: "snd (next_window j) \<le> max_id j"
    unfolding next_window_def by simp
  show ?thesis
  proof (cases "snd (next_window j) < max_id j")
    case True
    then show ?thesis
      unfolding PriceBatchJob_loop_turn_def using r w' run
      by (simp add: Let_def advance_def)
  next
    case False
    with le have "snd (next_window j) = max_id j" by simp
    then show ?thesis
      unfolding PriceBatchJob_loop_turn_def using r w' run
      by (simp add: Let_def advance_def stop_def)
  qed
qed

lemma window_of_turn_running:
  assumes "0 < current_start_id j" "current_start_id j \<le> max_id j" "1 \<le> batch_size j"
    "\<not> stop_event j" "\<not> paused j"
  shows "window_of_turn j = [next_window j]"
  using assms unfolding window_of_turn_def next_window_def by auto


lemma single_loop_ok:
  fixes m b :: int
  assumes b: "1 \<le> b"
    and key: "has_key c"
    and resp: "\<And>k names. \<exists>resp. respond c k names = Inr resp \<and> resp_ok bi resp"
    and nonempty: "\<And>k. 0 \<le> k \<Longrightarrow> 1 + k * b \<le> m \<Longrightarrow>
        items_in_range w0 (1 + k * b) (min m (1 + k * b + b - 1)) \<noteq> []"
  shows "client j = c \<Longrightarrow> max_id j = m \<Longrightarrow> batch_size j = b \<Longrightarrow> items w = items w0 \<Longrightarrow>
     store_ok w \<Longrightarrow> (\<And>k rows. commit_error w k rows = None) \<Longrightarrow>
     0 \<le> n \<Longrightarrow> current_start_id j = 1 + n * b \<Longrightarrow> current_start_id j \<le> m \<Longrightarrow>
     \<not> stop_event j \<Longrightarrow> \<not> paused j \<Longrightarrow>
     nat ((m - current_start_id j) div b) < length ts \<Longrightarrow>
     (\<exists>j' w'. PriceBatchJob_loop bi ts j w = Some (j', w')
         \<and> completed_count j' = m \<and> \<not> running j' \<and> \<not> paused j')
     \<and> PriceBatchJob_windows bi ts j w \<noteq> []
     \<and> fst (hd (PriceBatchJob_windows bi ts j w)) = current_start_id j
     \<and> snd (last (PriceBatchJob_windows bi ts j w)) = m
     \<and> (\<forall>u \<in> set (PriceBatchJob_windows bi ts j w).
           current_start_id j \<le> fst u \<and> fst u \<le> snd u \<and> snd u \<le> m
           \<and> snd u = min m (fst u + b - 1))
     \<and> successively (\<lambda>u v. fst v = snd u + 1) (PriceBatchJob_windows bi ts j w)
     \<and> sorted_wrt (\<lambda>u v. snd u < fst v) (PriceBatchJob_windows bi ts j w)
     \<and> (\<Union>u \<in> set (PriceBatchJob_windows bi ts j w). {fst u..snd u}) = {current_start_id j..m}"
proof (induction ts arbitrary: j w n)
  case Nil
  then show ?case by simp
next
  case (Cons now ts)
  define s where "s = current_start_id j"
  define e where "e = snd (next_window j)"
  have e: "e = min m (s + b - 1)"
    unfolding e_def s_def next_window_def using Cons.prems by simp
  have nw: "next_window j = (s, e)"
    unfolding e_def s_def next_window_def by simp
  have sn: "s = 1 + n * b" using Cons.prems(8) unfolding s_def .
  have "0 \<le> n * b" using Cons.prems(7) b by simp
  then have s0: "0 < s" using sn by simp
  have se: "s \<le> e" "e \<le> m"
    using e b Cons.prems(9) unfolding s_def by auto
  have "items_in_range w0 s e \<noteq> []"
    using nonempty [OF Cons.prems(7)] Cons.prems(9) unfolding e sn s_def [symmetric] by simp
  then have ne: "items_in_range w (fst (next_window j)) (snd (next_window j)) \<noteq> []"
    unfolding nw using Cons.prems(4) by (simp add: items_in_range_def)
  have resp': "\<And>k names. \<exists>resp. respond (client j) k names = Inr resp \<and> resp_ok bi resp"
    using resp Cons.prems by simp
  have "0 < current_start_id j" "current_start_id j \<le> max_id j" "1 \<le> batch_size j"
    "has_key (client j)"
    using Cons.prems b key s0 unfolding s_def by simp_all
  from single_turn_ok [OF this(1,2,3) Cons.prems(10,11) this(4) resp' Cons.prems(5,6) ne,
      of now]
  obtain j' w' where t: "PriceBatchJob_loop_turn bi now j w = (e < m, j', w')"
    and j': "completed_count j' = e" "current_start_id j' = e + 1" "max_id j' = m"
      "batch_size j' = b" "client j' = c" "\<not> paused j'"
      "if e < m then \<not> stop_event j' else \<not> running j'"
    and w': "items w' = items w0" "platforms w' = platforms w" "commit_error w' = commit_error w"
    unfolding e_def using Cons.prems by auto
  have wt: "window_of_turn j = [(s, e)]"
    using window_of_turn_running [of j] Cons.prems b nw s0 unfolding s_def by simp
  show ?case
  proof (cases "e < m")
    case False
    with se have em: "e = m" by simp
    have l: "PriceBatchJob_loop bi (now # ts) j w = Some (j', w')"
      using t False by simp
    have ws: "PriceBatchJob_windows bi (now # ts) j w = [(s, m)]"
      using t False wt em by simp
    have fin: "completed_count j' = m" "\<not> running j'" "\<not> paused j'"
      using j' False em by simp_all
    have "m = min m (s + b - 1)" using e em by simp
    then show ?thesis
      unfolding l ws s_def [symmetric] using fin se em by simp
  next
    case True
    then have es: "e = s + b - 1" using e by simp
    have store': "store_ok w'"
      using Cons.prems(5) w' Cons.prems(4) unfolding store_ok_def by simp
    have commit': "\<And>k rows. commit_error w' k rows = None"
      using Cons.prems(6) w' by simp
    have "(m - s) div b = (m - (e + 1) + b) div b" using es by simp
    also have "\<dots> = (m - (e + 1)) div b + 1"
      using b by simp
    finally have dv: "(m - s) div b = (m - (e + 1)) div b + 1" .
    have "0 \<le> (m - (e + 1)) div b"
      using True b by (simp add: pos_imp_zdiv_nonneg_iff)
    with dv Cons.prems(12) have fuel: "nat ((m - current_start_id j') div b) < length ts"
      unfolding s_def [symmetric] j' by simp
    have n': "0 \<le> n + 1" "current_start_id j' = 1 + (n + 1) * b"
      using Cons.prems(7) j'(2) es sn by (simp_all add: algebra_simps)
    have pre: "current_start_id j' \<le> m" "\<not> stop_event j'"
      using j' True by simp_all
    note IH = Cons.IH [OF j'(5) j'(3) j'(4) w'(1) store' commit' n' pre j'(6) fuel]
    define ws where "ws = PriceBatchJob_windows bi ts j' w'"
    have l: "PriceBatchJob_loop bi (now # ts) j w = PriceBatchJob_loop bi ts j' w'"
      using t True by simp
    have wsc: "PriceBatchJob_windows bi (now # ts) j w = (s, e) # ws"
      using t True wt unfolding ws_def by simp
    from IH have r1: "\<exists>j'' w''. PriceBatchJob_loop bi ts j' w' = Some (j'', w'')
         \<and> completed_count j'' = m \<and> \<not> running j'' \<and> \<not> paused j''"
      by blast
    from IH have r2: "ws \<noteq> []" "fst (hd ws) = e + 1" "snd (last ws) = m"
      unfolding ws_def j' by blast+
    from IH have r3: "\<forall>u \<in> set ws. e + 1 \<le> fst u \<and> fst u \<le> snd u \<and> snd u \<le> m
           \<and> snd u = min m (fst u + b - 1)"
      unfolding ws_def j' by blast
    from IH have r4: "successively (\<lambda>u v. fst v = snd u + 1) ws"
      "sorted_wrt (\<lambda>u v. snd u < fst v) ws"
      unfolding ws_def by blast+
    from IH have r5: "(\<Union>u \<in> set ws. {fst u..snd u}) = {e + 1..m}"
      unfolding ws_def j' by blast
    have c3: "\<forall>u \<in> set ((s, e) # ws). s \<le> fst u \<and> fst u \<le> snd u \<and> snd u \<le> m
           \<and> snd u = min m (fst u + b - 1)"
      using r3 se e by auto
    have c4: "successively (\<lambda>u v. fst v = snd u + 1) ((s, e) # ws)"
      using r4(1) r2(1,2) by (simp add: successively_Cons)
    have c5: "sorted_wrt (\<lambda>u v. snd u < fst v) ((s, e) # ws)"
      using r4(2) r3 by auto
    have "{s..e} \<union> {e + 1..m} = {s..m}"
      using se by auto
    then have c6: "(\<Union>u \<in> set ((s, e) # ws). {fst u..snd u}) = {s..m}"
      using r5 by simp
    have c2: "(s, e) # ws \<noteq> []" "fst (hd ((s, e) # ws)) = s" "snd (last ((s, e) # ws)) = m"
      using r2 by simp_all
    show ?thesis
      unfolding l wsc s_def [symmetric] using r1 c2 c3 c4 c5 c6 by blast
  qed
qed

lemma single_loop_empty_catalog:
  assumes "max_id j = 0" "current_start_id j = 1" "completed_count j = 0"
    "1 \<le> batch_size j" "\<not> stop_event j" "\<not> paused j"
  shows "PriceBatchJob_loop_turn bi now j w
           = (False, stop (j\<lparr>next_run_ts := Some (now + real_of_int (interval_sec j))\<rparr>), w)
         \<and> window_of_turn j = []"
proof -
  have "PriceBatchJob_run_one_range bi j w = (Inr (), j, w)"
    unfolding PriceBatchJob_run_one_range_def next_window_def using assms by simp
  then show ?thesis
    unfolding PriceBatchJob_loop_turn_def window_of_turn_def next_window_def
    using assms by simp
qed


lemma single_windows_cover:
  assumes b: "1 \<le> batch_size j" and m: "0 \<le> max_id j"
    and start: "current_start_id j = 1" "completed_count j = 0" "\<not> stop_event j" "\<not> paused j"
    and key: "has_key (client j)"
    and resp: "\<And>k names. \<exists>resp. respond (client j) k names = Inr resp \<and> resp_ok bi resp"
    and store: "store_ok w"
    and commit: "\<And>k rows. commit_error w k rows = None"
    and nonempty: "\<And>k. 0 \<le> k \<Longrightarrow> 1 + k * batch_size j \<le> max_id j \<Longrightarrow>
        items_in_range w (1 + k * batch_size j)
          (min (max_id j) (1 + k * batch_size j + batch_size j - 1)) \<noteq> []"
    and fuel: "ts \<noteq> []" "nat ((max_id j + batch_size j - 1) div batch_size j) \<le> length ts"
  shows "(\<exists>j' w'. PriceBatchJob_loop bi ts j w = Some (j', w')
            \<and> completed_count j' = max_id j \<and> \<not> running j' \<and> \<not> paused j')
    \<and> (\<forall>u \<in> set (PriceBatchJob_windows bi ts j w).
          fst u \<le> snd u \<and> snd u - fst u + 1 \<le> batch_size j
          \<and> snd u = min (max_id j) (fst u + batch_size j - 1))
    \<and> successively (\<lambda>u v. fst v = snd u + 1) (PriceBatchJob_windows bi ts j w)
    \<and> sorted_wrt (\<lambda>u v. snd u < fst v) (PriceBatchJob_windows bi ts j w)
    \<and> sorted_wrt (<) (map fst (PriceBatchJob_windows bi ts j w))
    \<and> (PriceBatchJob_windows bi ts j w \<noteq> [] \<longrightarrow>
          fst (hd (PriceBatchJob_windows bi ts j w)) = 1
          \<and> snd (last (PriceBatchJob_windows bi ts j w)) = max_id j)
    \<and> (\<Union>u \<in> set (PriceBatchJob_windows bi ts j w). {fst u..snd u}) = {1..max_id j}"
proof (cases "max_id j = 0")
  case True
  obtain now ts' where ts: "ts = now # ts'" using fuel(1) by (cases ts) auto
  have t: "PriceBatchJob_loop_turn bi now j w
           = (False, stop (j\<lparr>next_run_ts := Some (now + real_of_int (interval_sec j))\<rparr>), w)"
    and wt: "window_of_turn j = []"
    using single_loop_empty_catalog [OF True start(1,2) b start(3,4)] by blast+
  have l: "PriceBatchJob_loop bi ts j w
           = Some (stop (j\<lparr>next_run_ts := Some (now + real_of_int (interval_sec j))\<rparr>), w)"
    unfolding ts using t by simp
  have ws: "PriceBatchJob_windows bi ts j w = []"
    unfolding ts using t wt by simp
  show ?thesis
    unfolding l ws using True start by (simp add: stop_def)
next
  case False
  with m have m1: "1 \<le> max_id j" by simp
  define ws where "ws = PriceBatchJob_windows bi ts j w"
  have "(max_id j + batch_size j - 1) div batch_size j
        = (max_id j - 1 + batch_size j) div batch_size j"
    by (simp add: algebra_simps)
  also have "\<dots> = (max_id j - 1) div batch_size j + 1"
    using b by simp
  finally have dv: "(max_id j + batch_size j - 1) div batch_size j
        = (max_id j - 1) div batch_size j + 1" .
  have "0 \<le> (max_id j - 1) div batch_size j"
    using m1 b by (simp add: pos_imp_zdiv_nonneg_iff)
  with dv fuel(2) have fuel': "nat ((max_id j - current_start_id j) div batch_size j) < length ts"
    using start(1) by simp
  have c0: "current_start_id j = 1 + 0 * batch_size j" using start(1) by simp
  have cm: "current_start_id j \<le> max_id j" using start(1) m1 by simp
  note L = single_loop_ok [OF b key resp nonempty refl refl refl refl store commit
      order_refl c0 cm start(3,4) fuel']
  from L have r1: "\<exists>j' w'. PriceBatchJob_loop bi ts j w = Some (j', w')
         \<and> completed_count j' = max_id j \<and> \<not> running j' \<and> \<not> paused j'"
    by blast
  from L have r2: "fst (hd ws) = 1" "snd (last ws) = max_id j"
    unfolding ws_def start(1) by blast+
  from L have r3: "\<forall>u \<in> set ws. fst u \<le> snd u
      \<and> snd u = min (max_id j) (fst u + batch_size j - 1)"
    unfolding ws_def by blast
  from L have r4: "successively (\<lambda>u v. fst v = snd u + 1) ws"
    "sorted_wrt (\<lambda>u v. snd u < fst v) ws"
    unfolding ws_def by blast+
  from L have r5: "(\<Union>u \<in> set ws. {fst u..snd u}) = {1..max_id j}"
    unfolding ws_def start(1) by blast
  have c3: "\<forall>u \<in> set ws. fst u \<le> snd u \<and> snd u - fst u + 1 \<le> batch_size j
          \<and> snd u = min (max_id j) (fst u + batch_size j - 1)"
    using r3 by auto
  have le: "\<And>u. u \<in> set ws \<Longrightarrow> fst u \<le> snd u" using r3 by blast
  have "sorted_wrt (\<lambda>u v. fst u < fst v) ws"
  proof (rule sorted_wrt_mono_rel [where P = "\<lambda>u v. snd u < fst v"])
    show "sorted_wrt (\<lambda>u v. snd u < fst v) ws" by (rule r4(2))
  next
    fix u v
    assume "u \<in> set ws" "v \<in> set ws" "snd u < fst v"
    then show "fst u < fst v" using le [of u] by simp
  qed
  then have c5: "sorted_wrt (<) (map fst ws)"
    by (simp add: sorted_wrt_map)
  show ?thesis
    unfolding ws_def [symmetric] using r1 r2 c3 r4 c5 r5 by blast
qed

lemma pricing_client_answers:
  "\<exists>resp. respond pricing_client k names = Inr resp \<and> resp_ok example_builtins resp"
  using example_resp_ok by (simp add: pricing_client_def)

lemma example_windows_nonempty:
  assumes "0 \<le> k" "1 + k * 2 \<le> (5::int)"
  shows "items_in_range (example_world example_items) (1 + k * 2) (min 5 (1 + k * 2 + 2 - 1)) \<noteq> []"
proof -
  from assms have "k = 0 \<or> k = 1 \<or> k = 2" by arith
  then show ?thesis
    by (auto simp: items_in_range_def example_world_def example_items_def)
qed

lemma dual_run_ok:
  assumes s: "0 < current_start_id j" "current_start_id j \<le> max_id j"
    and b: "1 \<le> batch_size j"
    and c1: "client1 j = Some c1" "has_key c1"
      "\<And>k names. \<exists>resp. respond c1 k names = Inr resp \<and> resp_ok bi resp"
    and c2: "client2 j = Some c2" "has_key c2"
      "\<And>k names. \<exists>resp. respond c2 k names = Inr resp \<and> resp_ok bi resp"
    and store: "store_ok w"
    and commit: "\<And>k rows. commit_error w k rows = None"
  shows "\<exists>w' p. DualApiSequentialJob_run_one_range bi j w =
            (Inr (), (advance (fst (next_window j)) (snd (next_window j)) j)
                       \<lparr>next_client_id := p\<rparr>, w')
          \<and> items w' = items w \<and> platforms w' = platforms w
          \<and> commit_error w' = commit_error w"
proof -
  define st where "st = fst (next_window j)"
  define e where "e = snd (next_window j)"
  have st: "st = current_start_id j" and e: "e = min (max_id j) (st + batch_size j - 1)"
    unfolding st_def e_def next_window_def by simp_all
  have guard: "\<not> (st > e \<or> st \<le> 0)" using s b st e by auto
  define names where "names = names_of (items_in_range w st e)"
  have same: "advance st e j = (advance st e j)\<lparr>next_client_id := next_client_id j\<rparr>"
    unfolding advance_def by simp
  show ?thesis
  proof (cases "names = []")
    case True
    then have "DualApiSequentialJob_run_one_range bi j w = (Inr (), advance st e j, w)"
      unfolding DualApiSequentialJob_run_one_range_def Let_def names_of_def
      using guard unfolding names_def names_of_def st_def e_def by auto
    then have "DualApiSequentialJob_run_one_range bi j w
        = (Inr (), (advance st e j)\<lparr>next_client_id := next_client_id j\<rparr>, w)"
      using same by simp
    then show ?thesis unfolding st_def e_def by blast
  next
    case False
    then have ne: "items_in_range w st e \<noteq> []"
      unfolding names_def names_of_def by auto
    define cr where "cr = (if next_client_id j = 1 then Client1 else Client2)"
    define cli where "cli = (if next_client_id j = 1 then c1 else c2)"
    define w1 where "w1 = w\<lparr>api_calls := api_calls w @ [(cr, names)]\<rparr>"
    have sel: "(if next_client_id j = 1 then client1 j else client2 j) = Some cli"
      unfolding cli_def using c1(1) c2(1) by simp
    have hk: "has_key cli" unfolding cli_def using c1(2) c2(2) by simp
    have "\<exists>r. respond cli (length (api_calls w)) names = Inr r \<and> resp_ok bi r"
      unfolding cli_def using c1(3) c2(3) by simp
    then obtain r where r: "respond cli (length (api_calls w)) names = Inr r" "resp_ok bi r"
      by blast
    then have g: "get_price_batch cli (length (api_calls w)) names = Inr r"
      unfolding get_price_batch_def using hk by simp
    have "store_ok w1" using store unfolding w1_def store_ok_def by simp
    moreover have "\<And>k rows. commit_error w1 k rows = None"
      using commit unfolding w1_def by simp
    ultimately obtain rows where ww: "write_window bi w1 r = Inr (w1\<lparr>prices := prices w1 @ rows\<rparr>)"
      using write_window_ok [OF r(2)] by blast
    have "DualApiSequentialJob_run_one_range bi j w =
            (Inr (), (advance st e j)\<lparr>next_client_id := (if next_client_id j = 1 then 2 else 1)\<rparr>,
             w1\<lparr>prices := prices w1 @ rows\<rparr>)"
      unfolding DualApiSequentialJob_run_one_range_def Let_def
      using guard ne False sel g ww unfolding names_def st_def e_def w1_def cr_def by simp
    then show ?thesis unfolding st_def e_def w1_def by auto
  qed
qed

lemma dual_turn_ok:
  assumes s: "0 < current_start_id j" "current_start_id j \<le> max_id j"
    and b: "1 \<le> batch_size j"
    and run: "\<not> stop_event j" "\<not> paused j"
    and c1: "client1 j = Some c1" "has_key c1"
      "\<And>k names. \<exists>resp. respond c1 k names = Inr resp \<and> resp_ok bi resp"
    and c2: "client2 j = Some c2" "has_key c2"
      "\<And>k names. \<exists>resp. respond c2 k names = Inr resp \<and> resp_ok bi resp"
    and store: "store_ok w"
    and commit: "\<And>k rows. commit_error w k rows = None"
  shows "\<exists>j' w'. DualApiSequentialJob_loop_turn bi now j w = (snd (next_window j) < max_id j, j', w')
          \<and> completed_count j' = snd (next_window j)
          \<and> current_start_id j' = snd (next_window j) + 1
          \<and> max_id j' = max_id j \<and> batch_size j' = batch_size j
          \<and> client1 j' = client1 j \<and> client2 j' = client2 j
          \<and> \<not> paused j' \<and> last_error j' = None
          \<and> (if snd (next_window j) < max_id j then \<not> stop_event j' else \<not> running j')
          \<and> items w' = items w \<and> platforms w' = platforms w
          \<and> commit_error w' = commit_error w"
proof -
  obtain w' p where r: "DualApiSequentialJob_run_one_range bi j w =
            (Inr (), (advance (fst (next_window j)) (snd (next_window j)) j)
                       \<lparr>next_client_id := p\<rparr>, w')"
    and w': "items w' = items w" "platforms w' = platforms w" "commit_error w' = commit_error w"
    using dual_run_ok [OF s b c1 c2 store commit] by blast
  have le: "snd (next_window j) \<le> max_id j"
    unfolding next_window_def by simp
  show ?thesis
  proof (cases "snd (next_window j) < max_id j")
    case True
    then show ?thesis
      unfolding DualApiSequentialJob_loop_turn_def using r w' run
      by (simp add: Let_def advance_def)
  next
    case False
    with le have "snd (next_window j) = max_id j" by simp
    then show ?thesis
      unfolding DualApiSequentialJob_loop_turn_def using r w' run
      by (simp add: Let_def advance_def stop_def)
  qed
qed


lemma dual_loop_ok:
  fixes m b :: int
  assumes b: "1 \<le> b"
    and c1: "has_key c1" "\<And>k names. \<exists>resp. respond c1 k names = Inr resp \<and> resp_ok bi resp"
    and c2: "has_key c2" "\<And>k names. \<exists>resp. respond c2 k names = Inr resp \<and> resp_ok bi resp"
  shows "client1 j = Some c1 \<Longrightarrow> client2 j = Some c2 \<Longrightarrow> max_id j = m \<Longrightarrow> batch_size j = b \<Longrightarrow>
     items w = its \<Longrightarrow> store_ok w \<Longrightarrow> (\<And>k rows. commit_error w k rows = None) \<Longrightarrow>
     0 < current_start_id j \<Longrightarrow> current_start_id j \<le> m \<Longrightarrow>
     \<not> stop_event j \<Longrightarrow> \<not> paused j \<Longrightarrow>
     nat ((m - current_start_id j) div b) < length ts \<Longrightarrow>
     (\<exists>j' w'. DualApiSequentialJob_loop bi ts j w = Some (j', w')
         \<and> completed_count j' = m \<and> \<not> running j' \<and> \<not> paused j')
     \<and> DualApiSequentialJob_windows bi ts j w \<noteq> []
     \<and> fst (hd (DualApiSequentialJob_windows bi ts j w)) = current_start_id j
     \<and> snd (last (DualApiSequentialJob_windows bi ts j w)) = m
     \<and> (\<forall>u \<in> set (DualApiSequentialJob_windows bi ts j w).
           current_start_id j \<le> fst u \<and> fst u \<le> snd u \<and> snd u \<le> m
           \<and> snd u = min m (fst u + b - 1))
     \<and> successively (\<lambda>u v. fst v = snd u + 1) (DualApiSequentialJob_windows bi ts j w)
     \<and> sorted_wrt (\<lambda>u v. snd u < fst v) (DualApiSequentialJob_windows bi ts j w)
     \<and> (\<Union>u \<in> set (DualApiSequentialJob_windows bi ts j w). {fst u..snd u})
         = {current_start_id j..m}"
proof (induction ts arbitrary: j w)
  case Nil
  then show ?case by simp
next
  case (Cons now ts)
  define s where "s = current_start_id j"
  define e where "e = snd (next_window j)"
  have e: "e = min m (s + b - 1)"
    unfolding e_def s_def next_window_def using Cons.prems by simp
  have nw: "next_window j = (s, e)"
    unfolding e_def s_def next_window_def by simp
  have s0: "0 < s" using Cons.prems(8) unfolding s_def .
  have se: "s \<le> e" "e \<le> m"
    using e b Cons.prems(9) unfolding s_def by auto
  have "0 < current_start_id j" "current_start_id j \<le> max_id j" "1 \<le> batch_size j"
    using Cons.prems b by simp_all
  from dual_turn_ok [OF this Cons.prems(10,11) Cons.prems(1) c1 Cons.prems(2) c2
      Cons.prems(6,7), of now]
  obtain j' w' where t: "DualApiSequentialJob_loop_turn bi now j w = (e < m, j', w')"
    and j': "completed_count j' = e" "current_start_id j' = e + 1" "max_id j' = m"
      "batch_size j' = b" "client1 j' = Some c1" "client2 j' = Some c2" "\<not> paused j'"
      "if e < m then \<not> stop_event j' else \<not> running j'"
    and w': "items w' = its" "platforms w' = platforms w" "commit_error w' = commit_error w"
    unfolding e_def using Cons.prems by auto
  have wt: "window_of_turn j = [(s, e)]"
    using window_of_turn_running [of j] Cons.prems b nw s0 unfolding s_def by simp
  show ?case
  proof (cases "e < m")
    case False
    with se have em: "e = m" by simp
    have l: "DualApiSequentialJob_loop bi (now # ts) j w = Some (j', w')"
      using t False by simp
    have ws: "DualApiSequentialJob_windows bi (now # ts) j w = [(s, m)]"
      using t False wt em by simp
    have fin: "completed_count j' = m" "\<not> running j'" "\<not> paused j'"
      using j' False em by simp_all
    have "m = min m (s + b - 1)" using e em by simp
    then show ?thesis
      unfolding l ws s_def [symmetric] using fin se em by simp
  next
    case True
    then have es: "e = s + b - 1" using e by simp
    have store': "store_ok w'"
      using Cons.prems(6) w' Cons.prems(5) unfolding store_ok_def by simp
    have commit': "\<And>k rows. commit_error w' k rows = None"
      using Cons.prems(7) w' by simp
    have "(m - s) div b = (m - (e + 1) + b) div b" using es by simp
    also have "\<dots> = (m - (e + 1)) div b + 1"
      using b by simp
    finally have dv: "(m - s) div b = (m - (e + 1)) div b + 1" .
    have "0 \<le> (m - (e + 1)) div b"
      using True b by (simp add: pos_imp_zdiv_nonneg_iff)
    with dv Cons.prems(12) have fuel: "nat ((m - current_start_id j') div b) < length ts"
      unfolding s_def [symmetric] j' by simp
    have pre: "0 < current_start_id j'" "current_start_id j' \<le> m" "\<not> stop_event j'"
      using j' True se s0 by simp_all
    note IH = Cons.IH [OF j'(5) j'(6) j'(3) j'(4) w'(1) store' commit' pre j'(7) fuel]
    define ws where "ws = DualApiSequentialJob_windows bi ts j' w'"
    have l: "DualApiSequentialJob_loop bi (now # ts) j w = DualApiSequentialJob_loop bi ts j' w'"
      using t True by simp
    have wsc: "DualApiSequentialJob_windows bi (now # ts) j w = (s, e) # ws"
      using t True wt unfolding ws_def by simp
    from IH have r1: "\<exists>j'' w''. DualApiSequentialJob_loop bi ts j' w' = Some (j'', w'')
         \<and> completed_count j'' = m \<and> \<not> running j'' \<and> \<not> paused j''"
      by blast
    from IH have r2: "ws \<noteq> []" "fst (hd ws) = e + 1" "snd (last ws) = m"
      unfolding ws_def j' by blast+
    from IH have r3: "\<forall>u \<in> set ws. e + 1 \<le> fst u \<and> fst u \<le> snd u \<and> snd u \<le> m
           \<and> snd u = min m (fst u + b - 1)"
      unfolding ws_def j' by blast
    from IH have r4: "successively (\<lambda>u v. fst v = snd u + 1) ws"
      "sorted_wrt (\<lambda>u v. snd u < fst v) ws"
      unfolding ws_def by blast+
    from IH have r5: "(\<Union>u \<in> set ws. {fst u..snd u}) = {e + 1..m}"
      unfolding ws_def j' by blast
    have c3: "\<forall>u \<in> set ((s, e) # ws). s \<le> fst u \<and> fst u \<le> snd u \<and> snd u \<le> m
           \<and> snd u = min m (fst u + b - 1)"
      using r3 se e by auto
    have c4: "successively (\<lambda>u v. fst v = snd u + 1) ((s, e) # ws)"
      using r4(1) r2(1,2) by (simp add: successively_Cons)
    have c5: "sorted_wrt (\<lambda>u v. snd u < fst v) ((s, e) # ws)"
      using r4(2) r3 by auto
    have "{s..e} \<union> {e + 1..m} = {s..m}"
      using se by auto
    then have c6: "(\<Union>u \<in> set ((s, e) # ws). {fst u..snd u}) = {s..m}"
      using r5 by simp
    have c2: "(s, e) # ws \<noteq> []" "fst (hd ((s, e) # ws)) = s" "snd (last ((s, e) # ws)) = m"
      using r2 by simp_all
    show ?thesis
      unfolding l wsc s_def [symmetric] using r1 c2 c3 c4 c5 c6 by blast
  qed
qed

lemma dual_loop_empty_catalog:
  assumes "max_id j = 0" "current_start_id j = 1" "completed_count j = 0"
    "1 \<le> batch_size j" "\<not> stop_event j" "\<not> paused j"
  shows "(\<exists>j'. DualApiSequentialJob_loop_turn bi now j w = (False, j', w)
            \<and> completed_count j' = 0 \<and> \<not> running j' \<and> \<not> paused j')
         \<and> window_of_turn j = []"
proof -
  have "DualApiSequentialJob_run_one_range bi j w = (Inr (), j, w)"
    unfolding DualApiSequentialJob_run_one_range_def next_window_def using assms by simp
  then show ?thesis
    unfolding DualApiSequentialJob_loop_turn_def window_of_turn_def next_window_def
    using assms by (simp add: stop_def Let_def)
qed

lemma windows_properties:
  fixes m b :: int and ws :: "(int \<times> int) list"
  assumes r2: "fst (hd ws) = 1" "snd (last ws) = m"
    and r3: "\<forall>u \<in> set ws. 1 \<le> fst u \<and> fst u \<le> snd u \<and> snd u \<le> m
               \<and> snd u = min m (fst u + b - 1)"
    and r4: "successively (\<lambda>u v. fst v = snd u + 1) ws" "sorted_wrt (\<lambda>u v. snd u < fst v) ws"
    and r5: "(\<Union>u \<in> set ws. {fst u..snd u}) = {1..m}"
  shows "(\<forall>u \<in> set ws. fst u \<le> snd u \<and> snd u - fst u + 1 \<le> b
            \<and> snd u = min m (fst u + b - 1))
    \<and> successively (\<lambda>u v. fst v = snd u + 1) ws
    \<and> sorted_wrt (\<lambda>u v. snd u < fst v) ws
    \<and> sorted_wrt (<) (map fst ws)
    \<and> (ws \<noteq> [] \<longrightarrow> fst (hd ws) = 1 \<and> snd (last ws) = m)
    \<and> (\<Union>u \<in> set ws. {fst u..snd u}) = {1..m}"
proof -
  have c3: "\<forall>u \<in> set ws. fst u \<le> snd u \<and> snd u - fst u + 1 \<le> b
          \<and> snd u = min m (fst u + b - 1)"
    using r3 by auto
  have le: "\<And>u. u \<in> set ws \<Longrightarrow> fst u \<le> snd u" using r3 by blast
  have "sorted_wrt (\<lambda>u v. fst u < fst v) ws"
  proof (rule sorted_wrt_mono_rel [where P = "\<lambda>u v. snd u < fst v"])
    show "sorted_wrt (\<lambda>u v. snd u < fst v) ws" by (rule r4(2))
  next
    fix u v
    assume "u \<in> set ws" "v \<in> set ws" "snd u < fst v"
    then show "fst u < fst v" using le [of u] by simp
  qed
  then have c5: "sorted_wrt (<) (map fst ws)"
    by (simp add: sorted_wrt_map)
  show ?thesis
    using r2 c3 r4 c5 r5 by blast
qed

lemma fuel_enough:
  fixes m b :: int
  assumes "1 \<le> b" "1 \<le> m" "nat ((m + b - 1) div b) \<le> n"
  shows "nat ((m - 1) div b) < n"
proof -
  have "(m + b - 1) div b = (m - 1 + b) div b"
    by (simp add: algebra_simps)
  also have "\<dots> = (m - 1) div b + 1"
    using assms(1) by simp
  finally have dv: "(m + b - 1) div b = (m - 1) div b + 1" .
  have "0 \<le> (m - 1) div b"
    using assms(1,2) by (simp add: pos_imp_zdiv_nonneg_iff)
  with dv assms(3) show ?thesis by simp
qed

lemma dual_windows_cover:
  assumes b: "1 \<le> batch_size j" and m: "0 \<le> max_id j"
    and start: "current_start_id j = 1" "completed_count j = 0" "\<not> stop_event j" "\<not> paused j"
    and c1: "client1 j = Some c1" "has_key c1"
      "\<And>k names. \<exists>resp. respond c1 k names = Inr resp \<and> resp_ok bi resp"
    and c2: "client2 j = Some c2" "has_key c2"
      "\<And>k names. \<exists>resp. respond c2 k names = Inr resp \<and> resp_ok bi resp"
    and store: "store_ok w"
    and commit: "\<And>k rows. commit_error w k rows = None"
    and fuel: "ts \<noteq> []" "nat ((max_id j + batch_size j - 1) div batch_size j) \<le> length ts"
  shows "(\<exists>j' w'. DualApiSequentialJob_loop bi ts j w = Some (j', w')
            \<and> completed_count j' = max_id j \<and> \<not> running j' \<and> \<not> paused j')
    \<and> (\<forall>u \<in> set (DualApiSequentialJob_windows bi ts j w).
          fst u \<le> snd u \<and> snd u - fst u + 1 \<le> batch_size j
          \<and> snd u = min (max_id j) (fst u + batch_size j - 1))
    \<and> successively (\<lambda>u v. fst v = snd u + 1) (DualApiSequentialJob_windows bi ts j w)
    \<and> sorted_wrt (\<lambda>u v. snd u < fst v) (DualApiSequentialJob_windows bi ts j w)
    \<and> sorted_wrt (<) (map fst (DualApiSequentialJob_windows bi ts j w))
    \<and> (DualApiSequentialJob_windows bi ts j w \<noteq> [] \<longrightarrow>
          fst (hd (DualApiSequentialJob_windows bi ts j w)) = 1
          \<and> snd (last (DualApiSequentialJob_windows bi ts j w)) = max_id j)
    \<and> (\<Union>u \<in> set (DualApiSequentialJob_windows bi ts j w). {fst u..snd u}) = {1..max_id j}"
proof (cases "max_id j = 0")
  case True
  obtain now ts' where ts: "ts = now # ts'" using fuel(1) by (cases ts) auto
  obtain j' where t: "DualApiSequentialJob_loop_turn bi now j w = (False, j', w)"
    and j': "completed_count j' = 0" "\<not> running j'" "\<not> paused j'"
    and wt: "window_of_turn j = []"
    using dual_loop_empty_catalog [OF True start(1,2) b start(3,4), of bi now w] by blast
  have l: "DualApiSequentialJob_loop bi ts j w = Some (j', w)"
    unfolding ts using t by simp
  have ws: "DualApiSequentialJob_windows bi ts j w = []"
    unfolding ts using t wt by simp
  show ?thesis
    unfolding l ws using True j' by simp
next
  case False
  with m have m1: "1 \<le> max_id j" by simp
  define ws where "ws = DualApiSequentialJob_windows bi ts j w"
  have fuel': "nat ((max_id j - current_start_id j) div batch_size j) < length ts"
    unfolding start(1) using fuel_enough [OF b m1 fuel(2)] .
  have c0: "0 < current_start_id j" using start(1) by simp
  have cm: "current_start_id j \<le> max_id j" using start(1) m1 by simp
  note L = dual_loop_ok [OF b c1(2,3) c2(2,3) c1(1) c2(1) refl refl refl store commit
      c0 cm start(3,4) fuel']
  from L have r1: "\<exists>j' w'. DualApiSequentialJob_loop bi ts j w = Some (j', w')
         \<and> completed_count j' = max_id j \<and> \<not> running j' \<and> \<not> paused j'"
    by blast
  from L have r2: "fst (hd ws) = 1" "snd (last ws) = max_id j"
    unfolding ws_def start(1) by blast+
  from L have r3: "\<forall>u \<in> set ws. 1 \<le> fst u \<and> fst u \<le> snd u \<and> snd u \<le> max_id j
      \<and> snd u = min (max_id j) (fst u + batch_size j - 1)"
    unfolding ws_def start(1) by blast
  from L have r4: "successively (\<lambda>u v. fst v = snd u + 1) ws"
    "sorted_wrt (\<lambda>u v. snd u < fst v) ws"
    unfolding ws_def by blast+
  from L have r5: "(\<Union>u \<in> set ws. {fst u..snd u}) = {1..max_id j}"
    unfolding ws_def start(1) by blast
  show ?thesis
    unfolding ws_def [symmetric]
    using r1 windows_properties [OF r2 r3 r4 r5] by blast
qed

text \<open>
  Claim C4, as amended. Take a job at cursor 1 with nothing completed, any \<open>max_id \<ge> 0\<close>
  and \<open>batch_size \<ge> 1\<close>, in an environment where no window fails: the clients have their
  keys and answer with responses of the declared shape, the store keeps its uniqueness
  constraints and commits; for the single job, each window it reads also holds at least
  one catalog entry. Then the loop, given a clock reading for each window, ends with
  \<open>completed_count = max_id\<close> and the job idle, and the windows it processed are each
  \<open>(start_id, min(max_id, start_id + batch_size - 1))\<close>, not empty and of at most
  \<open>batch_size\<close> ids, each starting right after the one before, ascending and disjoint, with
  strictly increasing cursors, from 1 to \<open>max_id\<close>, and together they are exactly the ids
  1 to \<open>max_id\<close>. The first half is the single job, the second the dual job.
\<close>

theorem windows_cover_catalog:
  "(1 \<le> batch_size j \<and> 0 \<le> max_id j
      \<and> current_start_id j = 1 \<and> completed_count j = 0 \<and> \<not> stop_event j \<and> \<not> paused j
      \<and> has_key (client j)
      \<and> (\<forall>k names. \<exists>resp. respond (client j) k names = Inr resp \<and> resp_ok bi resp)
      \<and> store_ok w \<and> (\<forall>k rows. commit_error w k rows = None)
      \<and> (\<forall>k. 0 \<le> k \<and> 1 + k * batch_size j \<le> max_id j \<longrightarrow>
            items_in_range w (1 + k * batch_size j)
              (min (max_id j) (1 + k * batch_size j + batch_size j - 1)) \<noteq> [])
      \<and> ts \<noteq> [] \<and> nat ((max_id j + batch_size j - 1) div batch_size j) \<le> length ts
    \<longrightarrow>
      (\<exists>j' w'. PriceBatchJob_loop bi ts j w = Some (j', w')
          \<and> completed_count j' = max_id j \<and> \<not> running j' \<and> \<not> paused j')
      \<and> (\<forall>u \<in> set (PriceBatchJob_windows bi ts j w).
            fst u \<le> snd u \<and> snd u - fst u + 1 \<le> batch_size j
            \<and> snd u = min (max_id j) (fst u + batch_size j - 1))
      \<and> successively (\<lambda>u v. fst v = snd u + 1) (PriceBatchJob_windows bi ts j w)
      \<and> sorted_wrt (\<lambda>u v. snd u < fst v) (PriceBatchJob_windows bi ts j w)
      \<and> sorted_wrt (<) (map fst (PriceBatchJob_windows bi ts j w))
      \<and> (PriceBatchJob_windows bi ts j w \<noteq> [] \<longrightarrow>
            fst (hd (PriceBatchJob_windows bi ts j w)) = 1
            \<and> snd (last (PriceBatchJob_windows bi ts j w)) = max_id j)
      \<and> (\<Union>u \<in> set (PriceBatchJob_windows bi ts j w). {fst u..snd u}) = {1..max_id j})
   \<and>
   (1 \<le> batch_size d \<and> 0 \<le> max_id d
      \<and> current_start_id d = 1 \<and> completed_count d = 0 \<and> \<not> stop_event d \<and> \<not> paused d
      \<and> client1 d = Some ca \<and> has_key ca
      \<and> (\<forall>k names. \<exists>resp. respond ca k names = Inr resp \<and> resp_ok bi resp)
      \<and> client2 d = Some cb \<and> has_key cb
      \<and> (\<forall>k names. \<exists>resp. respond cb k names = Inr resp \<and> resp_ok bi resp)
      \<and> store_ok w \<and> (\<forall>k rows. commit_error w k rows = None)
      \<and> ts \<noteq> [] \<and> nat ((max_id d + batch_size d - 1) div batch_size d) \<le> length ts
    \<longrightarrow>
      (\<exists>d' w'. DualApiSequentialJob_loop bi ts d w = Some (d', w')
          \<and> completed_count d' = max_id d \<and> \<not> running d' \<and> \<not> paused d')
      \<and> (\<forall>u \<in> set (DualApiSequentialJob_windows bi ts d w).
            fst u \<le> snd u \<and> snd u - fst u + 1 \<le> batch_size d
            \<and> snd u = min (max_id d) (fst u + batch_size d - 1))
      \<and> successively (\<lambda>u v. fst v = snd u + 1) (DualApiSequentialJob_windows bi ts d w)
      \<and> sorted_wrt (\<lambda>u v. snd u < fst v) (DualApiSequentialJob_windows bi ts d w)
      \<and> sorted_wrt (<) (map fst (DualApiSequentialJob_windows bi ts d w))
      \<and> (DualApiSequentialJob_windows bi ts d w \<noteq> [] \<longrightarrow>
            fst (hd (DualApiSequentialJob_windows bi ts d w)) = 1
            \<and> snd (last (DualApiSequentialJob_windows bi ts d w)) = max_id d)
      \<and> (\<Union>u \<in> set (DualApiSequentialJob_windows bi ts d w). {fst u..snd u}) = {1..max_id d})"
proof (rule conjI; rule impI; elim conjE)
  assume h: "1 \<le> batch_size j" "0 \<le> max_id j" "current_start_id j = 1" "completed_count j = 0"
    "\<not> stop_event j" "\<not> paused j" "has_key (client j)"
    "\<forall>k names. \<exists>resp. respond (client j) k names = Inr resp \<and> resp_ok bi resp"
    "store_ok w" "\<forall>k rows. commit_error w k rows = None"
    "\<forall>k. 0 \<le> k \<and> 1 + k * batch_size j \<le> max_id j \<longrightarrow>
        items_in_range w (1 + k * batch_size j)
          (min (max_id j) (1 + k * batch_size j + batch_size j - 1)) \<noteq> []"
    "ts \<noteq> []" "nat ((max_id j + batch_size j - 1) div batch_size j) \<le> length ts"
  have r: "\<And>k names. \<exists>resp. respond (client j) k names = Inr resp \<and> resp_ok bi resp"
    using h(8) by blast
  have c: "\<And>k rows. commit_error w k rows = None" using h(10) by blast
  have n: "\<And>k. 0 \<le> k \<Longrightarrow> 1 + k * batch_size j \<le> max_id j \<Longrightarrow>
        items_in_range w (1 + k * batch_size j)
          (min (max_id j) (1 + k * batch_size j + batch_size j - 1)) \<noteq> []"
    using h(11) by blast
  show "(\<exists>j' w'. PriceBatchJob_loop bi ts j w = Some (j', w')
          \<and> completed_count j' = max_id j \<and> \<not> running j' \<and> \<not> paused j')
      \<and> (\<forall>u \<in> set (PriceBatchJob_windows bi ts j w).
            fst u \<le> snd u \<and> snd u - fst u + 1 \<le> batch_size j
            \<and> snd u = min (max_id j) (fst u + batch_size j - 1))
      \<and> successively (\<lambda>u v. fst v = snd u + 1) (PriceBatchJob_windows bi ts j w)
      \<and> sorted_wrt (\<lambda>u v. snd u < fst v) (PriceBatchJob_windows bi ts j w)
      \<and> sorted_wrt (<) (map fst (PriceBatchJob_windows bi ts j w))
      \<and> (PriceBatchJob_windows bi ts j w \<noteq> [] \<longrightarrow>
            fst (hd (PriceBatchJob_windows bi ts j w)) = 1
            \<and> snd (last (PriceBatchJob_windows bi ts j w)) = max_id j)
      \<and> (\<Union>u \<in> set (PriceBatchJob_windows bi ts j w). {fst u..snd u}) = {1..max_id j}"
    by (rule single_windows_cover [OF h(1,2,3,4,5,6,7) r h(9) c n h(12,13)])
next
  assume h: "1 \<le> batch_size d" "0 \<le> max_id d" "current_start_id d = 1" "completed_count d = 0"
    "\<not> stop_event d" "\<not> paused d" "client1 d = Some ca" "has_key ca"
    "\<forall>k names. \<exists>resp. respond ca k names = Inr resp \<and> resp_ok bi resp"
    "client2 d = Some cb" "has_key cb"
    "\<forall>k names. \<exists>resp. respond cb k names = Inr resp \<and> resp_ok bi resp"
    "store_ok w" "\<forall>k rows. commit_error w k rows = None"
    "ts \<noteq> []" "nat ((max_id d + batch_size d - 1) div batch_size d) \<le> length ts"
  have r1: "\<And>k names. \<exists>resp. respond ca k names = Inr resp \<and> resp_ok bi resp"
    using h(9) by blast
  have r2: "\<And>k names. \<exists>resp. respond cb k names = Inr resp \<and> resp_ok bi resp"
    using h(12) by blast
  have c: "\<And>k rows. commit_error w k rows = None" using h(14) by blast
  show "(\<exists>d' w'. DualApiSequentialJob_loop bi ts d w = Some (d', w')
          \<and> completed_count d' = max_id d \<and> \<not> running d' \<and> \<not> paused d')
      \<and> (\<forall>u \<in> set (DualApiSequentialJob_windows bi ts d w).
            fst u \<le> snd u \<and> snd u - fst u + 1 \<le> batch_size d
            \<and> snd u = min (max_id d) (fst u + batch_size d - 1))
      \<and> successively (\<lambda>u v. fst v = snd u + 1) (DualApiSequentialJob_windows bi ts d w)
      \<and> sorted_wrt (\<lambda>u v. snd u < fst v) (DualApiSequentialJob_windows bi ts d w)
      \<and> sorted_wrt (<) (map fst (DualApiSequentialJob_windows bi ts d w))
      \<and> (DualApiSequentialJob_windows bi ts d w \<noteq> [] \<longrightarrow>
            fst (hd (DualApiSequentialJob_windows bi ts d w)) = 1
            \<and> snd (last (DualApiSequentialJob_windows bi ts d w)) = max_id d)
      \<and> (\<Union>u \<in> set (DualApiSequentialJob_windows bi ts d w). {fst u..snd u}) = {1..max_id d}"
    by (rule dual_windows_cover [OF h(1,2,3,4,5,6,7,8) r1 h(10,11) r2 h(13) c h(15,16)])
qed

lemma dual_pricing_job_fields:
  "current_start_id dual_pricing_job = 1" "max_id dual_pricing_job = 5"
  "batch_size dual_pricing_job = 2" "completed_count dual_pricing_job = 0"
  "client1 dual_pricing_job = Some pricing_client"
  "client2 dual_pricing_job = Some pricing_client"
  "\<not> stop_event dual_pricing_job" "\<not> paused dual_pricing_job"
  by (simp_all add: dual_pricing_job_def DualApiSequentialJob_start_def
        DualApiSequentialJob_init_def start_fields_def or_default_def Let_def max_item_id_def
        example_items_def example_world_def client_ok_def has_key_def pricing_client_def)

theorem windows_cover_catalog_witness:
  "(\<exists>j' w'. PriceBatchJob_loop example_builtins [0, 60, 120] pricing_job
               (example_world example_items) = Some (j', w')
       \<and> completed_count j' = 5 \<and> \<not> running j' \<and> \<not> paused j')
   \<and> PriceBatchJob_windows example_builtins [0, 60, 120] pricing_job
        (example_world example_items) = [(1, 2), (3, 4), (5, 5)]
   \<and> (\<exists>d' w'. DualApiSequentialJob_loop example_builtins [0, 60, 120] dual_pricing_job
               (example_world example_items) = Some (d', w')
       \<and> completed_count d' = 5 \<and> \<not> running d' \<and> \<not> paused d')
   \<and> DualApiSequentialJob_windows example_builtins [0, 60, 120] dual_pricing_job
        (example_world example_items) = [(1, 2), (3, 4), (5, 5)]"
proof -
  have k: "has_key pricing_client"
    by (simp add: has_key_def pricing_client_def)
  have c: "commit_error (example_world example_items) k rows = None" for k rows
    by (simp add: example_world_def)
  have ws: "PriceBatchJob_windows example_builtins [0, 60, 120] pricing_job
        (example_world example_items) = [(1, 2), (3, 4), (5, 5)]"
    by code_simp
  have wd: "DualApiSequentialJob_windows example_builtins [0, 60, 120] dual_pricing_job
        (example_world example_items) = [(1, 2), (3, 4), (5, 5)]"
    by code_simp
  show ?thesis
    using windows_cover_catalog [where j = pricing_job and d = dual_pricing_job
        and w = "example_world example_items" and ca = pricing_client and cb = pricing_client
        and bi = example_builtins and ts = "[0, 60, 120]"]
      k c ws wd pricing_client_answers example_store_ok example_windows_nonempty
    by (simp add: pricing_job_fields dual_pricing_job_fields)
qed

text \<open>
  The claim as it was stated, for every run: with a client whose requests time out the
  window raises, the cursor stays at 1, and the loop reads the same window again at every
  turn without ending.
\<close>

theorem failed_window_repeats_counterexample:
  "batch_size failing_job = 2 \<and> max_id failing_job = 5 \<and> current_start_id failing_job = 1
   \<and> current_start_id (fst (snd (PriceBatchJob_loop_turn example_builtins 0 failing_job
        (example_world example_items)))) = 1
   \<and> PriceBatchJob_windows example_builtins [0, 60, 120] failing_job
        (example_world example_items) = [(1, 2), (1, 2), (1, 2)]
   \<and> Option.is_none (PriceBatchJob_loop example_builtins [0, 60, 120] failing_job
        (example_world example_items))"
  by code_simp

end
